theory Spec2Isabelle
  imports Main
begin

section \<open>JavaScript values the client handles\<close>

text \<open>
  Strings are character lists. For the text typed into the form each element stands for
  one code unit of the JavaScript string, so that \<open>length\<close> is the \<open>.length\<close> the
  form library compares. The two pictographs of the user messages are written as the
  bytes of their UTF-8 encoding.
\<close>

definition check_mark :: string where
  "check_mark = [CHR 0xE2, CHR 0x9C, CHR 0x93]"

definition cross_mark :: string where
  "cross_mark = [CHR 0xE2, CHR 0x9D, CHR 0x8C]"

text \<open>\<open>s.startsWith(p)\<close> and \<open>s.includes(t)\<close>.\<close>

definition startsWith :: "string \<Rightarrow> string \<Rightarrow> bool" where
  "startsWith s p = (take (length p) s = p)"

fun js_includes :: "string \<Rightarrow> string \<Rightarrow> bool" where
  "js_includes [] t = (t = [])"
| "js_includes (c # cs) t = (startsWith (c # cs) t \<or> js_includes cs t)"

text \<open>Decimal rendering of a non-negative integer, as a template literal prints it.\<close>

fun show_nat :: "nat \<Rightarrow> string" where
  "show_nat n =
     (if n < 10 then [''0123456789'' ! n]
      else show_nat (n div 10) @ [''0123456789'' ! (n mod 10)])"

text \<open>
  A parsed JSON document. A number carries the text JavaScript prints for it (so the
  number zero is \<open>JNum ''0''\<close>); an object is the list of its members in document order,
  of which \<open>JSON.parse\<close> keeps the last one for a repeated key.
\<close>

datatype json =
    JNull
  | JBool bool
  | JNum string
  | JStr string
  | JArr "json list"
  | JObj "(string \<times> json) list"

text \<open>
  A JavaScript value read from a document is \<open>Some v\<close>, and \<open>None\<close> is
  \<open>undefined\<close> (a member that is absent).
\<close>

type_synonym jsval = "json option"

fun join_comma :: "string list \<Rightarrow> string" where
  "join_comma [] = []"
| "join_comma [s] = s"
| "join_comma (s # t # ss) = s @ '','' @ join_comma (t # ss)"

text \<open>\<open>String(v)\<close>, which is also what a template literal and \<open>new Error(v)\<close> apply.\<close>

fun js_string :: "json \<Rightarrow> string" where
  "js_string JNull = ''null''"
| "js_string (JBool b) = (if b then ''true'' else ''false'')"
| "js_string (JNum s) = s"
| "js_string (JStr s) = s"
| "js_string (JArr xs) = join_comma (map (\<lambda>x. if x = JNull then [] else js_string x) xs)"
| "js_string (JObj kvs) = ''[object Object]''"

fun template :: "jsval \<Rightarrow> string" where
  "template None = ''undefined''"
| "template (Some v) = js_string v"

text \<open>Truthiness, as \<open>||\<close> and \<open>if\<close> test it.\<close>

fun truthy :: "jsval \<Rightarrow> bool" where
  "truthy None = False"
| "truthy (Some JNull) = False"
| "truthy (Some (JBool b)) = b"
| "truthy (Some (JNum s)) = (s \<noteq> ''0'')"
| "truthy (Some (JStr s)) = (s \<noteq> [])"
| "truthy (Some (JArr xs)) = True"
| "truthy (Some (JObj kvs)) = True"

section \<open>What the page does, as a trace of events\<close>

datatype js_file = File (file_name: string) (file_bytes: string)

datatype form_value = FText string | FFile js_file

datatype http_method = GET | POST

text \<open>
  \<open>Fetch m url body\<close> is a call of \<open>fetch\<close>; \<open>body\<close> is the list of the
  \<open>FormData\<close> entries in the order they were appended (empty for a request without a body).
  \<open>Sleep ms\<close> is \<open>await new Promise(r => setTimeout(r, ms))\<close>.
  \<open>Download name bytes\<close> is the click on a link whose \<open>href\<close> is an object URL of the
  blob \<open>bytes\<close> and whose \<open>download\<close> attribute is \<open>name\<close>.
  \<open>ConsoleError\<close> carries the arguments of the call, an error object by its message.
  \<open>OnSuccess\<close> is the call of the callback the dialog passed.
  \<open>FieldError\<close> is the message the form library shows under a field that fails its rules.
\<close>

datatype event =
    ConsoleLog string
  | ConsoleError "string list"
  | Alert string
  | Fetch http_method string "(string \<times> form_value) list"
  | Sleep nat
  | Download string string
  | FormReset
  | OnSuccess
  | FieldError string

text \<open>
  A response as the client reads it: \<open>json_body\<close> is what \<open>await response.json()\<close>
  gives and \<open>blob_body\<close> what \<open>await response.blob()\<close> gives, \<open>Inl m\<close> when the
  promise rejects with an error whose message is \<open>m\<close>. \<open>content_type\<close> is
  \<open>headers.get('content-type')\<close>, \<open>None\<close> for \<open>null\<close>.
\<close>

record response =
  status :: nat
  statusText :: string
  content_type :: "string option"
  json_body :: "string + json"
  blob_body :: "string + string"

text \<open>\<open>response.ok\<close>: the status is in the range 200 to 299.\<close>

definition ok :: "response \<Rightarrow> bool" where
  "ok r = (200 \<le> status r \<and> status r \<le> 299)"

text \<open>
  Everything outside the component. \<open>upload_reply\<close> is the outcome of the POST and
  \<open>poll_reply n\<close> the outcome of the status request of the poll numbered \<open>n\<close>; \<open>Inl m\<close>
  is a \<open>fetch\<close> that rejects with message \<open>m\<close>. \<open>type_error e\<close> is the message of
  the TypeError the engine raises when the expression \<open>e\<close> reads a property of
  \<open>null\<close> or \<open>undefined\<close>, or calls what is not a function. \<open>now\<close> is \<open>Date.now()\<close>.
\<close>

record world =
  VITE_API_URL :: "string option"
  upload_reply :: "string + response"
  poll_reply :: "nat \<Rightarrow> string + response"
  type_error :: "string \<Rightarrow> string"
  now :: nat

text \<open>
  A computation that has produced events and then either thrown an error (\<open>Inl\<close>, the
  error's message) or returned a value.
\<close>

type_synonym 'a io = "event list \<times> (string + 'a)"

definition ret :: "'a \<Rightarrow> 'a io" where
  "ret x = ([], Inr x)"

definition throw :: "string \<Rightarrow> 'a io" where
  "throw m = ([], Inl m)"

definition emit :: "event \<Rightarrow> unit io" where
  "emit e = ([e], Inr ())"

definition await :: "string + 'a \<Rightarrow> 'a io" where
  "await p = ([], p)"

definition bind :: "'a io \<Rightarrow> ('a \<Rightarrow> 'b io) \<Rightarrow> 'b io" where
  "bind m f =
     (case m of
        (es, Inl e) \<Rightarrow> (es, Inl e)
      | (es, Inr x) \<Rightarrow> (case f x of (es', r) \<Rightarrow> (es @ es', r)))"

definition seq :: "unit io \<Rightarrow> 'b io \<Rightarrow> 'b io" where
  "seq m k = bind m (\<lambda>_. k)"

text \<open>\<open>try { m } catch (e) { h e }\<close>\<close>

definition catch :: "'a io \<Rightarrow> (string \<Rightarrow> 'a io) \<Rightarrow> 'a io" where
  "catch m h =
     (case m of
        (es, Inl e) \<Rightarrow> (case h e of (es', r) \<Rightarrow> (es @ es', r))
      | (es, Inr x) \<Rightarrow> (es, Inr x))"

text \<open>
  \<open>v.k\<close> for a parsed document \<open>v\<close> and one of the member names the components read
  (\<open>status\<close>, \<open>error\<close>, \<open>progress\<close>, \<open>job_id\<close>): a TypeError on \<open>null\<close>, the member
  of an object, \<open>undefined\<close> on every other value.
\<close>

fun json_member :: "json \<Rightarrow> string \<Rightarrow> jsval" where
  "json_member (JObj kvs) k = map_of (rev kvs) k"
| "json_member v k = None"

fun get_prop :: "world \<Rightarrow> string \<Rightarrow> json \<Rightarrow> string \<Rightarrow> jsval io" where
  "get_prop w expr JNull k = throw (type_error w expr)"
| "get_prop w expr v k = ret (json_member v k)"

section \<open>The text form: \<open>DepressionDetectorForm\<close>\<close>

text \<open>
  The props a dialog passes to its form: \<open>onSuccess\<close> tells whether a callback is
  passed, and \<open>None\<close> is a string prop that is not passed.
\<close>

record props =
  onSuccess :: bool
  llm :: "string option"
  prompt :: "string option"

text \<open>\<open>import.meta.env.VITE_API_URL || "http://localhost:5000"\<close>\<close>

definition API_URL :: "world \<Rightarrow> string" where
  "API_URL w =
     (case VITE_API_URL w of
        None \<Rightarrow> ''http://localhost:5000''
      | Some u \<Rightarrow> if u = [] then ''http://localhost:5000'' else u)"

definition maxPolls :: nat where
  "maxPolls = 600"

text \<open>What \<open>FormData.append\<close> stores for a string prop.\<close>

definition prop_string :: "string option \<Rightarrow> string" where
  "prop_string v = (case v of None \<Rightarrow> ''undefined'' | Some s \<Rightarrow> s)"

text \<open>\<open>jobId.substring(0, 8)\<close>: only a string has the method.\<close>

fun substring8 :: "world \<Rightarrow> jsval \<Rightarrow> string io" where
  "substring8 w (Some (JStr s)) = ret (take 8 s)"
| "substring8 w v = throw (type_error w ''jobId.substring'')"

text \<open>The branch \<open>if (!uploadResponse.ok)\<close>: it always throws.\<close>

definition upload_not_ok :: "world \<Rightarrow> response \<Rightarrow> 'a io" where
  "upload_not_ok w uploadResponse =
     bind (await (json_body uploadResponse)) (\<lambda>errorData.
     bind (get_prop w ''errorData.error'' errorData ''error'') (\<lambda>e.
       throw (if truthy e then template e
              else ''Upload failed: '' @ statusText uploadResponse)))"

text \<open>The branch \<open>if (!statusResponse.ok)\<close> of a poll: it always throws.\<close>

definition poll_not_ok :: "world \<Rightarrow> response \<Rightarrow> 'a io" where
  "poll_not_ok w statusResponse =
     bind (await (json_body statusResponse)) (\<lambda>errorData.
       if status statusResponse = 400 then
         bind (get_prop w ''errorData.status'' errorData ''status'') (\<lambda>st.
           if st = Some (JStr ''error'') then
             bind (get_prop w ''errorData.error'' errorData ''error'') (\<lambda>er.
               throw (''Processing failed: '' @ template er))
           else throw ''Temporary polling error'')
       else throw ''Temporary polling error'')"

text \<open>\<open>contentType && contentType.includes('application/pdf')\<close>\<close>

definition is_pdf :: "response \<Rightarrow> bool" where
  "is_pdf r =
     (case content_type r of
        None \<Rightarrow> False
      | Some ct \<Rightarrow> ct \<noteq> [] \<and> js_includes ct ''application/pdf'')"

text \<open>The success response of a poll; the result is the new value of \<open>isComplete\<close>.\<close>

definition poll_ok :: "world \<Rightarrow> jsval \<Rightarrow> bool \<Rightarrow> response \<Rightarrow> bool io" where
  "poll_ok w jobId isComplete statusResponse =
     (if is_pdf statusResponse then
        seq (emit (ConsoleLog (check_mark @ '' PDF ready! Downloading...'')))
       (bind (await (blob_body statusResponse)) (\<lambda>blob.
        bind (substring8 w jobId) (\<lambda>short.
        seq (emit (Download (''report_'' @ short @ ''.pdf'') blob))
       (seq (emit (ConsoleLog (check_mark @ '' Download complete!'')))
       (ret True)))))
      else
        bind (await (json_body statusResponse)) (\<lambda>statusData.
        bind (get_prop w ''statusData.status'' statusData ''status'') (\<lambda>st.
        bind (get_prop w ''statusData.progress'' statusData ''progress'') (\<lambda>pr.
        seq (emit (ConsoleLog (''Status: '' @ template st @ '' | Progress: '' @ template pr @ ''%'')))
       (ret isComplete)))))"

text \<open>The body of the \<open>try\<close> inside the loop.\<close>

definition poll_try :: "world \<Rightarrow> jsval \<Rightarrow> bool \<Rightarrow> nat \<Rightarrow> bool io" where
  "poll_try w jobId isComplete pollCount =
     bind (substring8 w jobId) (\<lambda>short.
     seq (emit (ConsoleLog (''[Poll '' @ show_nat pollCount @ ''] Checking status for job ''
                            @ short @ ''...'')))
    (seq (emit (Fetch GET (API_URL w @ ''/api/job/'' @ template jobId) []))
    (bind (await (poll_reply w pollCount)) (\<lambda>statusResponse.
       if \<not> ok statusResponse then poll_not_ok w statusResponse
       else poll_ok w jobId isComplete statusResponse))))"

text \<open>The \<open>catch (pollError)\<close> block.\<close>

definition poll_catch :: "bool \<Rightarrow> string \<Rightarrow> bool io" where
  "poll_catch isComplete pollError =
     seq (emit (ConsoleError [''Poll error: '' @ pollError]))
         (if startsWith pollError ''Processing failed'' then throw pollError
          else ret isComplete)"

text \<open>
  One turn of the loop, entered with \<open>pollCount\<close> already incremented: the wait of one
  second, then the guarded poll.
\<close>

definition poll_iteration :: "world \<Rightarrow> jsval \<Rightarrow> bool \<Rightarrow> nat \<Rightarrow> bool io" where
  "poll_iteration w jobId isComplete pollCount =
     seq (emit (Sleep 1000))
         (catch (poll_try w jobId isComplete pollCount) (poll_catch isComplete))"

text \<open>
  \<open>while (!isComplete && pollCount < maxPolls)\<close>; the result is \<open>isComplete\<close>. An
  error that leaves a turn leaves the loop, and the events of the turns follow each other.
\<close>

function poll_loop :: "world \<Rightarrow> jsval \<Rightarrow> bool \<Rightarrow> nat \<Rightarrow> bool io" where
  "poll_loop w jobId isComplete pollCount =
     (if \<not> isComplete \<and> pollCount < maxPolls then
        (case poll_iteration w jobId isComplete (pollCount + 1) of
           (es, Inl e) \<Rightarrow> (es, Inl e)
         | (es, Inr isComplete') \<Rightarrow>
             (case poll_loop w jobId isComplete' (pollCount + 1) of
                (es', r) \<Rightarrow> (es @ es', r)))
      else ret isComplete)"
  by pat_completeness auto
termination
  by (relation "measure (\<lambda>(w, jobId, isComplete, pollCount). maxPolls - pollCount)") auto

declare poll_loop.simps [simp del]

text \<open>
  \<open>onSubmit\<close> of the text form is written in four parts. The first is the polling: the
  loop entered with \<open>isComplete = false\<close> and \<open>pollCount = 0\<close>, and the timeout thrown
  when the loop ends without the report.
\<close>

definition timeout_message :: string where
  "timeout_message = ''Processing timeout - took longer than 10 minutes''"

definition DepressionDetectorForm_poll :: "world \<Rightarrow> jsval \<Rightarrow> unit io" where
  "DepressionDetectorForm_poll w jobId =
     bind (poll_loop w jobId False 0) (\<lambda>isComplete.
       if \<not> isComplete then throw timeout_message else ret ())"

text \<open>The second is the end of the \<open>try\<close>: reset, message, callback.\<close>

definition DepressionDetectorForm_done :: "props \<Rightarrow> unit io" where
  "DepressionDetectorForm_done p =
     seq (emit FormReset)
    (seq (emit (Alert (check_mark @ '' Report generated and downloaded successfully!'')))
         (if onSuccess p then emit OnSuccess else ret ()))"

text \<open>The third is what follows the answer to the upload.\<close>

definition DepressionDetectorForm_uploaded :: "props \<Rightarrow> world \<Rightarrow> response \<Rightarrow> unit io" where
  "DepressionDetectorForm_uploaded p w uploadResponse =
     (if \<not> ok uploadResponse then upload_not_ok w uploadResponse
      else
        bind (await (json_body uploadResponse)) (\<lambda>uploadData.
        bind (get_prop w ''uploadData.job_id'' uploadData ''job_id'') (\<lambda>jobId.
        seq (emit (ConsoleLog (check_mark @ '' Job started: '' @ template jobId)))
       (seq (DepressionDetectorForm_poll w jobId)
            (DepressionDetectorForm_done p)))))"

text \<open>The fourth is the body of the outer \<open>try\<close>, from its first line.\<close>

definition DepressionDetectorForm_try :: "props \<Rightarrow> world \<Rightarrow> string \<Rightarrow> unit io" where
  "DepressionDetectorForm_try p w text =
     seq (emit (ConsoleLog ''Submitting text...''))
    (seq (emit (Fetch POST (API_URL w @ ''/api/upload'')
                  [(''llm'', FText (prop_string (llm p))), (''text'', FText text)]))
    (bind (await (upload_reply w)) (DepressionDetectorForm_uploaded p w)))"

text \<open>\<open>onSubmit\<close> of the text form, with its outer \<open>catch (error)\<close>.\<close>

definition DepressionDetectorForm_onSubmit :: "props \<Rightarrow> world \<Rightarrow> string \<Rightarrow> unit io" where
  "DepressionDetectorForm_onSubmit p w text =
     catch (DepressionDetectorForm_try p w text) (\<lambda>error.
       seq (emit (ConsoleError [''Error:'', error]))
           (emit (Alert (cross_mark @ '' Error: '' @ error))))"

text \<open>
  The rules of the field \<open>text\<close>, as the form library (react-hook-form, a dependency of
  the page) applies them to the string of a textarea: \<open>required\<close> fails on the empty
  string and on nothing else, \<open>minLength\<close> compares the \<open>length\<close> of the value as it
  was typed. The result is the message of the first rule that fails.
\<close>

definition text_rules :: "string \<Rightarrow> string option" where
  "text_rules text =
     (if text = [] then Some ''Please enter text to analyze''
      else if length text < 10 then Some ''Text must be at least 10 characters''
      else None)"

text \<open>
  \<open>form.handleSubmit(onSubmit)\<close>: the handler runs only when every rule passes; otherwise
  the message is shown under the field.
\<close>

definition DepressionDetectorForm_handleSubmit :: "props \<Rightarrow> world \<Rightarrow> string \<Rightarrow> unit io" where
  "DepressionDetectorForm_handleSubmit p w text =
     (case text_rules text of
        Some m \<Rightarrow> emit (FieldError m)
      | None \<Rightarrow> DepressionDetectorForm_onSubmit p w text)"

section \<open>The text dialog: \<open>DataUploadTxt\<close>\<close>

record prompt_option =
  opt_value :: string
  opt_label :: string

definition PROMPT_OPTIONS :: "prompt_option list" where
  "PROMPT_OPTIONS =
     [\<lparr>opt_value = ''simple'', opt_label = ''Simple (Binary Classification)''\<rparr>,
      \<lparr>opt_value = ''structured'', opt_label = ''Structured (Checklist)''\<rparr>,
      \<lparr>opt_value = ''feature_extraction'', opt_label = ''Feature Extraction (Metrics)''\<rparr>,
      \<lparr>opt_value = ''chain_of_thought'', opt_label = ''Chain-of-Thought (Reasoning)''\<rparr>,
      \<lparr>opt_value = ''few_shot'', opt_label = ''Few-Shot (Example Based)''\<rparr>,
      \<lparr>opt_value = ''free_form'', opt_label = ''Free-Form (Narrative)''\<rparr>]"

text \<open>The items of the model menu, in the order they are written: the value each sets.\<close>

definition LLM_ITEMS :: "string list" where
  "LLM_ITEMS = [''Gemini'', ''LLaMA'', ''ChatGPT'', ''Kimi'', ''Qwen'', ''Compound'']"

record txt_dialog =
  txt_open :: bool
  selectedLLM :: string
  selectedPrompt :: string

text \<open>The three \<open>useState\<close> initial values.\<close>

definition DataUploadTxt_init :: txt_dialog where
  "DataUploadTxt_init = \<lparr>txt_open = False, selectedLLM = ''Gemini'', selectedPrompt = ''simple''\<rparr>"

text \<open>
  What the user can do in the dialog: open or close it, click the \<open>i\<close>-th item of the
  model menu, click the \<open>i\<close>-th item of the analysis-type menu, which is rendered by
  \<open>PROMPT_OPTIONS.map\<close> with the handler \<open>setSelectedPrompt(option.value)\<close>. A menu
  has no item beyond its last one.
\<close>

datatype txt_action = OpenChange bool | ClickLLM nat | ClickPrompt nat

fun txt_step :: "txt_dialog \<Rightarrow> txt_action \<Rightarrow> txt_dialog" where
  "txt_step st (OpenChange b) = st\<lparr>txt_open := b\<rparr>"
| "txt_step st (ClickLLM i) =
     (if i < length LLM_ITEMS then st\<lparr>selectedLLM := LLM_ITEMS ! i\<rparr> else st)"
| "txt_step st (ClickPrompt i) =
     (if i < length PROMPT_OPTIONS then st\<lparr>selectedPrompt := opt_value (PROMPT_OPTIONS ! i)\<rparr>
      else st)"

text \<open>
  \<open><ContactForm onSuccess={() => setOpen(false)} llm={selectedLLM} prompt={selectedPrompt} />\<close>,
  where \<open>ContactForm\<close> is the default export of the text form.
\<close>

definition DataUploadTxt_props :: "txt_dialog \<Rightarrow> props" where
  "DataUploadTxt_props st =
     \<lparr>onSuccess = True, llm = Some (selectedLLM st),
      prompt = Some (selectedPrompt st)\<rparr>"

text \<open>The callback \<open>() => setOpen(false)\<close> closes the dialog.\<close>

definition DataUploadTxt_after :: "txt_dialog \<Rightarrow> event list \<Rightarrow> txt_dialog" where
  "DataUploadTxt_after st trace = (if OnSuccess \<in> set trace then st\<lparr>txt_open := False\<rparr> else st)"

definition DataUploadTxt_submit :: "txt_dialog \<Rightarrow> world \<Rightarrow> string \<Rightarrow> unit io" where
  "DataUploadTxt_submit st w text =
     DepressionDetectorForm_handleSubmit (DataUploadTxt_props st) w text"

section \<open>The file form: \<open>ContactForm\<close>\<close>

text \<open>The branch \<open>if (!response.ok)\<close> of the file form: it always throws.\<close>

definition file_not_ok :: "world \<Rightarrow> response \<Rightarrow> 'a io" where
  "file_not_ok w response =
     bind (await (json_body response)) (\<lambda>errorData.
     bind (get_prop w ''errorData.error'' errorData ''error'') (\<lambda>e.
       throw (if truthy e then template e
              else ''Processing failed: '' @ statusText response)))"

text \<open>
  The body of the \<open>try\<close> of \<open>onSubmit\<close>. The component takes \<open>onSuccess\<close> from its
  props and nothing else. \<open>values.file\<close> is \<open>None\<close> when no file was chosen.
\<close>

definition ContactForm_try :: "props \<Rightarrow> world \<Rightarrow> js_file option \<Rightarrow> unit io" where
  "ContactForm_try p w file =
     (case file of
        None \<Rightarrow> emit (Alert ''Please select a file'')
      | Some f \<Rightarrow>
          seq (emit (ConsoleLog (''Processing '' @ file_name f @ ''...'')))
         (seq (emit (Fetch POST ''http://localhost:5000/api/upload'' [(''file'', FFile f)]))
         (bind (await (upload_reply w)) (\<lambda>response.
            if \<not> ok response then file_not_ok w response
            else
              bind (await (blob_body response)) (\<lambda>blob.
              seq (emit (Download (''report_'' @ show_nat (now w) @ ''.pdf'') blob))
             (seq (emit FormReset)
             (seq (emit (Alert ''Report generated and downloaded successfully!''))
             (if onSuccess p then emit OnSuccess else ret ()))))))))"

definition ContactForm_onSubmit :: "props \<Rightarrow> world \<Rightarrow> js_file option \<Rightarrow> unit io" where
  "ContactForm_onSubmit p w file =
     catch (ContactForm_try p w file) (\<lambda>error.
       seq (emit (ConsoleError [''Error:'', error]))
           (emit (Alert (''Error: '' @ error))))"

text \<open>The rule \<open>required\<close> of the field \<open>file\<close> fails when no file was chosen.\<close>

definition file_rules :: "js_file option \<Rightarrow> string option" where
  "file_rules file = (if file = None then Some ''Please select a file to analyze'' else None)"

definition ContactForm_handleSubmit :: "props \<Rightarrow> world \<Rightarrow> js_file option \<Rightarrow> unit io" where
  "ContactForm_handleSubmit p w file =
     (case file_rules file of
        Some m \<Rightarrow> emit (FieldError m)
      | None \<Rightarrow> ContactForm_onSubmit p w file)"

section \<open>The file dialog: \<open>DataUpload\<close>\<close>

record file_dialog =
  file_open :: bool
  file_selectedLLM :: string

definition DataUpload_init :: file_dialog where
  "DataUpload_init = \<lparr>file_open = False, file_selectedLLM = ''Gemini''\<rparr>"

datatype file_action = FileOpenChange bool | FileClickLLM nat

fun file_step :: "file_dialog \<Rightarrow> file_action \<Rightarrow> file_dialog" where
  "file_step st (FileOpenChange b) = st\<lparr>file_open := b\<rparr>"
| "file_step st (FileClickLLM i) =
     (if i < length LLM_ITEMS then st\<lparr>file_selectedLLM := LLM_ITEMS ! i\<rparr> else st)"

text \<open>\<open><ContactForm onSuccess={() => setOpen(false)} llm={selectedLLM} />\<close>\<close>

definition DataUpload_props :: "file_dialog \<Rightarrow> props" where
  "DataUpload_props st =
     \<lparr>onSuccess = True, llm = Some (file_selectedLLM st), prompt = None\<rparr>"

definition DataUpload_after :: "file_dialog \<Rightarrow> event list \<Rightarrow> file_dialog" where
  "DataUpload_after st trace = (if OnSuccess \<in> set trace then st\<lparr>file_open := False\<rparr> else st)"

definition DataUpload_submit :: "file_dialog \<Rightarrow> world \<Rightarrow> js_file option \<Rightarrow> unit io" where
  "DataUpload_submit st w file = ContactForm_handleSubmit (DataUpload_props st) w file"

section \<open>Reading a trace\<close>

fun is_sleep :: "event \<Rightarrow> bool" where
  "is_sleep (Sleep ms) = True"
| "is_sleep e = False"

fun is_status_fetch :: "event \<Rightarrow> bool" where
  "is_status_fetch (Fetch GET url body) = True"
| "is_status_fetch e = False"

fun is_upload :: "event \<Rightarrow> bool" where
  "is_upload (Fetch POST url body) = True"
| "is_upload e = False"

fun is_download :: "event \<Rightarrow> bool" where
  "is_download (Download name bytes) = True"
| "is_download e = False"

text \<open>The names of the fields of a request body, in order.\<close>

fun body_fields :: "event \<Rightarrow> string list" where
  "body_fields (Fetch m url body) = map fst body"
| "body_fields e = []"

text \<open>A stretch of a trace with no wait and no status request in it.\<close>

definition quiet :: "event list \<Rightarrow> bool" where
  "quiet t = (\<forall>e \<in> set t. \<not> is_sleep e \<and> \<not> is_status_fetch e)"

text \<open>What the outer \<open>catch (error)\<close> of the text form does with the message of the error.\<close>

definition catch_events :: "string \<Rightarrow> event list" where
  "catch_events m = [ConsoleError [''Error:'', m], Alert (cross_mark @ '' Error: '' @ m)]"


text \<open>
  A reply to a poll that is an HTTP 400 response whose JSON body has the member
  \<open>status\<close> equal to the string \<open>error\<close>.
\<close>

definition job_error_reply :: "string + response \<Rightarrow> bool" where
  "job_error_reply reply =
     (case reply of
        Inl m \<Rightarrow> False
      | Inr r \<Rightarrow>
          status r = 400 \<and>
          (case json_body r of
             Inl m \<Rightarrow> False
           | Inr d \<Rightarrow> json_member d ''status'' = Some (JStr ''error'')))"

text \<open>
  The messages of the errors the platform raises during the poll numbered \<open>n\<close> (the
  TypeErrors of the engine, a rejected \<open>fetch\<close>, a body that cannot be read or parsed)
  are the platform's own wording: none of them starts with the words the component
  gives to a failed job.
\<close>

definition platform_message :: "string \<Rightarrow> bool" where
  "platform_message m = (\<not> startsWith m ''Processing failed'')"

definition platform_messages :: "world \<Rightarrow> nat \<Rightarrow> bool" where
  "platform_messages w n =
     ((\<forall>e. platform_message (type_error w e)) \<and>
      (case poll_reply w n of
         Inl m \<Rightarrow> platform_message m
       | Inr r \<Rightarrow>
           (case json_body r of Inl m \<Rightarrow> platform_message m | Inr d \<Rightarrow> True) \<and>
           (case blob_body r of Inl m \<Rightarrow> platform_message m | Inr b \<Rightarrow> True)))"

text \<open>
  \<open>String.prototype.trim\<close>, by which the specification words the emptiness check: the
  white space of the Latin-1 range is removed from both ends.
\<close>

definition is_space :: "char \<Rightarrow> bool" where
  "is_space c = (c \<in> set [CHR '' '', CHR 0x09, CHR 0x0A, CHR 0x0B, CHR 0x0C, CHR 0x0D, CHR 0xA0])"

definition js_trim :: "string \<Rightarrow> string" where
  "js_trim s = rev (dropWhile is_space (rev (dropWhile is_space s)))"

section \<open>The job store of the server\<close>

text \<open>
  Modelled from the spec: the server (the job orchestrator behind \<open>/api/upload\<close> and
  \<open>/api/job/<id>\<close>) is not among the sources. The job record is the data model of the
  specification, section 3, with the states \<open>pending\<close>, \<open>running\<close>, \<open>complete\<close> and
  \<open>error\<close>; \<open>result\<close> is the structured analysis with the bytes of the report, and
  \<open>job_error\<close> the classified reason with the message. The view is what the status
  operation of section 4.4 returns.
\<close>

datatype job_status = Pending | Running | Complete | Failed

record job =
  job_status :: job_status
  progress :: nat
  provider :: string
  promptStrategy :: string
  result :: "(string \<times> string) option"
  job_error :: "(string \<times> string) option"
  createdAt :: nat
  completedAt :: "nat option"

type_synonym job_store = "string \<rightharpoonup> job"

datatype job_view =
    StatusView job_status nat
  | ResultView "(string \<times> string) option"
  | ErrorView "(string \<times> string) option"

datatype not_found = NotFound

text \<open>
  Modelled from the spec: while the job is pending or running the view is its status and
  progress, on \<open>complete\<close> the result, on \<open>error\<close> the error.
\<close>

definition job_view_of :: "job \<Rightarrow> job_view" where
  "job_view_of j =
     (case job_status j of
        Pending \<Rightarrow> StatusView Pending (progress j)
      | Running \<Rightarrow> StatusView Running (progress j)
      | Complete \<Rightarrow> ResultView (result j)
      | Failed \<Rightarrow> ErrorView (job_error j))"

text \<open>
  Modelled from the spec: \<open>getStatus(jobId)\<close> returns the view of the job, or fails with
  \<open>NotFound\<close> for an identifier that is unknown or expired (one the store does not hold);
  a read does not change the store, which is returned as it was.
\<close>

definition getStatus :: "job_store \<Rightarrow> string \<Rightarrow> (not_found + job_view) \<times> job_store" where
  "getStatus jobs jobId =
     (case jobs jobId of
        None \<Rightarrow> (Inl NotFound, jobs)
      | Some j \<Rightarrow> (Inr (job_view_of j), jobs))"

definition terminal :: "job \<Rightarrow> bool" where
  "terminal j = (job_status j = Complete \<or> job_status j = Failed)"

text \<open>\<open>n\<close> calls of \<open>getStatus\<close> one after the other: the answers and the store left.\<close>

fun getStatus_times :: "nat \<Rightarrow> job_store \<Rightarrow> string \<Rightarrow> (not_found + job_view) list \<times> job_store" where
  "getStatus_times 0 jobs jobId = ([], jobs)"
| "getStatus_times (Suc n) jobs jobId =
     (case getStatus jobs jobId of
        (v, jobs') \<Rightarrow>
          (case getStatus_times n jobs' jobId of (vs, jobs'') \<Rightarrow> (v # vs, jobs'')))"

section \<open>Concrete inputs\<close>

definition done_job :: job where
  "done_job =
     \<lparr>job_status = Complete, progress = 100, provider = ''Gemini'', promptStrategy = ''simple'',
      result = Some (''{label: depressed, confidence: 0.82}'', ''%PDF-1.4''), job_error = None,
      createdAt = 10, completedAt = Some 25\<rparr>"

definition gemini_simple :: props where
  "gemini_simple = \<lparr>onSuccess = True, llm = Some ''Gemini'', prompt = Some ''simple''\<rparr>"

text \<open>A double quote, for the text of a JSON body.\<close>

definition dq :: string where
  "dq = [CHR 0x22]"

text \<open>A response with a JSON body: its text and the document the text parses to.\<close>

definition json_reply :: "nat \<Rightarrow> string \<Rightarrow> string \<Rightarrow> json \<Rightarrow> response" where
  "json_reply st st_text raw d =
     \<lparr>status = st, statusText = st_text, content_type = Some ''application/json'',
      json_body = Inr d, blob_body = Inr raw\<rparr>"

definition job_started :: response where
  "job_started =
     json_reply 200 ''OK'' (''{'' @ dq @ ''job_id'' @ dq @ '': '' @ dq @ ''4f2a9c1e-77'' @ dq @ ''}'')
       (JObj [(''job_id'', JStr ''4f2a9c1e-77'')])"

definition job_running :: response where
  "job_running =
     json_reply 200 ''OK''
       (''{'' @ dq @ ''status'' @ dq @ '': '' @ dq @ ''running'' @ dq @ '', ''
          @ dq @ ''progress'' @ dq @ '': 50}'')
       (JObj [(''status'', JStr ''running''), (''progress'', JNum ''50'')])"

text \<open>The answer for a failed job, sent with the given HTTP status.\<close>

definition job_failed :: "nat \<Rightarrow> string \<Rightarrow> response" where
  "job_failed st st_text =
     json_reply st st_text
       (''{'' @ dq @ ''status'' @ dq @ '': '' @ dq @ ''error'' @ dq @ '', ''
          @ dq @ ''error'' @ dq @ '': '' @ dq @ ''Rate limit exceeded'' @ dq @ ''}'')
       (JObj [(''status'', JStr ''error''), (''error'', JStr ''Rate limit exceeded'')])"

definition pdf_reply :: response where
  "pdf_reply =
     \<lparr>status = 200, statusText = ''OK'', content_type = Some ''application/pdf'',
      json_body = Inl ''JSON.parse: unexpected character at line 1 column 1 of the JSON data'',
      blob_body = Inr ''%PDF-1.4''\<rparr>"

text \<open>A server that has the report ready at the first poll.\<close>

definition quick_server :: world where
  "quick_server =
     \<lparr>VITE_API_URL = None,
      upload_reply = Inr job_started,
      poll_reply = (\<lambda>n. Inr pdf_reply),
      type_error = (\<lambda>e. ''Cannot read properties of undefined''),
      now = 1700000000000\<rparr>"

text \<open>A server whose job never leaves \<open>running\<close>.\<close>

definition slow_server :: world where
  "slow_server = quick_server\<lparr>poll_reply := (\<lambda>n. Inr job_running)\<rparr>"

text \<open>A network that drops the first poll.\<close>

definition flaky_network :: world where
  "flaky_network =
     quick_server\<lparr>poll_reply := (\<lambda>n. if n = 1 then Inl ''Failed to fetch'' else Inr pdf_reply)\<rparr>"

text \<open>A server whose job fails after two polls, reported with the given HTTP status.\<close>

definition failing_server :: "nat \<Rightarrow> string \<Rightarrow> world" where
  "failing_server st st_text =
     quick_server\<lparr>poll_reply := (\<lambda>n. if n < 3 then Inr job_running else Inr (job_failed st st_text))\<rparr>"

text \<open>A server that answers the upload with the report itself.\<close>

definition sync_server :: world where
  "sync_server = quick_server\<lparr>upload_reply := Inr pdf_reply\<rparr>"

section \<open>Events and results of the steps\<close>

lemma fst_ret [simp]: "fst (ret x) = []"
  by (simp add: ret_def)

lemma snd_ret [simp]: "snd (ret x) = Inr x"
  by (simp add: ret_def)

lemma fst_throw [simp]: "fst (throw m) = []"
  by (simp add: throw_def)

lemma snd_throw [simp]: "snd (throw m) = Inl m"
  by (simp add: throw_def)

lemma fst_emit [simp]: "fst (emit e) = [e]"
  by (simp add: emit_def)

lemma snd_emit [simp]: "snd (emit e) = Inr ()"
  by (simp add: emit_def)

lemma fst_await [simp]: "fst (await p) = []"
  by (simp add: await_def)

lemma snd_await [simp]: "snd (await p) = p"
  by (simp add: await_def)

lemma fst_bind:
  "fst (bind m f) = (case snd m of Inl e \<Rightarrow> fst m | Inr x \<Rightarrow> fst m @ fst (f x))"
  by (simp add: bind_def split: prod.splits sum.splits)

lemma snd_bind:
  "snd (bind m f) = (case snd m of Inl e \<Rightarrow> Inl e | Inr x \<Rightarrow> snd (f x))"
  by (simp add: bind_def split: prod.splits sum.splits)

lemma fst_seq:
  "fst (seq m k) = (case snd m of Inl e \<Rightarrow> fst m | Inr x \<Rightarrow> fst m @ fst k)"
  by (simp add: seq_def fst_bind)

lemma snd_seq:
  "snd (seq m k) = (case snd m of Inl e \<Rightarrow> Inl e | Inr x \<Rightarrow> snd k)"
  by (simp add: seq_def snd_bind)

lemma fst_catch:
  "fst (catch m h) = (case snd m of Inl e \<Rightarrow> fst m @ fst (h e) | Inr x \<Rightarrow> fst m)"
  by (simp add: catch_def split: prod.splits sum.splits)

lemma snd_catch:
  "snd (catch m h) = (case snd m of Inl e \<Rightarrow> snd (h e) | Inr x \<Rightarrow> Inr x)"
  by (simp add: catch_def split: prod.splits sum.splits)

lemma fst_emit_seq [simp]: "fst (seq (emit e) k) = e # fst k"
  by (simp add: fst_seq)

lemma snd_emit_seq [simp]: "snd (seq (emit e) k) = snd k"
  by (simp add: snd_seq)

lemmas io_simps = fst_bind snd_bind fst_catch snd_catch

lemma fst_substring8 [simp]: "fst (substring8 w jobId) = []"
  by (cases "(w, jobId)" rule: substring8.cases) simp_all

lemma snd_substring8:
  "snd (substring8 w jobId) =
     (case jobId of
        Some (JStr s) \<Rightarrow> Inr (take 8 s)
      | _ \<Rightarrow> Inl (type_error w ''jobId.substring''))"
  by (cases "(w, jobId)" rule: substring8.cases) simp_all

lemma fst_get_prop [simp]: "fst (get_prop w e d k) = []"
  by (cases "(w, e, d, k)" rule: get_prop.cases) simp_all

lemma snd_get_prop:
  "snd (get_prop w e d k) =
     (if d = JNull then Inl (type_error w e) else Inr (json_member d k))"
  by (cases "(w, e, d, k)" rule: get_prop.cases) simp_all

lemma fst_poll_not_ok [simp]: "fst (poll_not_ok w r) = []"
  by (simp add: poll_not_ok_def io_simps split: sum.splits)

lemma snd_poll_not_ok_Inl: "\<exists>m. snd (poll_not_ok w r) = Inl m"
  by (simp add: poll_not_ok_def io_simps snd_get_prop split: sum.splits)

lemma poll_ok_events:
  "e \<in> set (fst (poll_ok w jobId c r)) \<Longrightarrow> (\<exists>s. e = ConsoleLog s) \<or>
      (\<exists>s b. jobId = Some (JStr s) \<and> is_pdf r \<and> blob_body r = Inr b \<and> e = Download (''report_'' @ take 8 s @ ''.pdf'') b)"
  by (auto simp: poll_ok_def io_simps snd_substring8 snd_get_prop split: sum.splits if_splits option.splits json.splits)

lemma in_fst_bind:
  "e \<in> set (fst (bind m f)) \<Longrightarrow> e \<in> set (fst m) \<or> (\<exists>x. snd m = Inr x \<and> e \<in> set (fst (f x)))"
  by (cases "snd m") (simp_all add: fst_bind)

lemma substring8_Inr:
  "snd (substring8 w jobId) = Inr short \<Longrightarrow> \<exists>s. jobId = Some (JStr s) \<and> short = take 8 s"
  by (cases "(w, jobId)" rule: substring8.cases) simp_all

lemma poll_try_events:
  assumes "e \<in> set (fst (poll_try w jobId c n))"
  shows "(\<exists>s. e = ConsoleLog s)
       \<or> (\<exists>s. jobId = Some (JStr s) \<and> e = Fetch GET (API_URL w @ ''/api/job/'' @ s) [])
       \<or> (\<exists>s r b. jobId = Some (JStr s) \<and> poll_reply w n = Inr r \<and> ok r \<and> is_pdf r
             \<and> blob_body r = Inr b \<and> e = Download (''report_'' @ take 8 s @ ''.pdf'') b)"
proof -
  from in_fst_bind [OF assms [unfolded poll_try_def]]
  obtain short where sh: "snd (substring8 w jobId) = Inr short"
    and e: "e \<in> set (fst (seq (emit (ConsoleLog (''[Poll '' @ show_nat n @ ''] Checking status for job ''
                            @ short @ ''...'')))
    (seq (emit (Fetch GET (API_URL w @ ''/api/job/'' @ template jobId) []))
    (bind (await (poll_reply w n)) (\<lambda>statusResponse.
       if \<not> ok statusResponse then poll_not_ok w statusResponse
       else poll_ok w jobId c statusResponse)))))"
    by auto
  from substring8_Inr [OF sh] obtain s where s: "jobId = Some (JStr s)" by blast
  from e consider "\<exists>s. e = ConsoleLog s" | "e = Fetch GET (API_URL w @ ''/api/job/'' @ template jobId) []"
    | "e \<in> set (fst (bind (await (poll_reply w n)) (\<lambda>statusResponse.
       if \<not> ok statusResponse then poll_not_ok w statusResponse
       else poll_ok w jobId c statusResponse)))" by auto
  then show ?thesis
  proof cases
    case 1 then show ?thesis by blast
  next
    case 2 with s show ?thesis by simp
  next
    case 3
    from in_fst_bind [OF 3] obtain r where r: "poll_reply w n = Inr r"
      and e': "e \<in> set (fst (if \<not> ok r then poll_not_ok w r else poll_ok w jobId c r))"
      by auto
    from e' have okr: "ok r" and "e \<in> set (fst (poll_ok w jobId c r))"
      by (auto split: if_splits)
    from poll_ok_events [OF this(2)] r okr show ?thesis by blast
  qed
qed

lemma fst_poll_catch [simp]: "fst (poll_catch c m) = [ConsoleError [''Poll error: '' @ m]]"
  by (simp add: poll_catch_def)

lemma snd_poll_catch:
  "snd (poll_catch c m) = (if startsWith m ''Processing failed'' then Inl m else Inr c)"
  by (simp add: poll_catch_def)

lemma fst_poll_iteration:
  "fst (poll_iteration w jobId c n) = Sleep 1000 # fst (poll_try w jobId c n) @
     (case snd (poll_try w jobId c n) of Inl m \<Rightarrow> [ConsoleError [''Poll error: '' @ m]] | Inr x \<Rightarrow> [])"
  by (simp add: poll_iteration_def fst_catch split: sum.splits)

lemma snd_poll_iteration:
  "snd (poll_iteration w jobId c n) =
     (case snd (poll_try w jobId c n) of
        Inl m \<Rightarrow> if startsWith m ''Processing failed'' then Inl m else Inr c
      | Inr x \<Rightarrow> Inr x)"
  by (simp add: poll_iteration_def snd_catch snd_poll_catch split: sum.splits)

lemma poll_iteration_events:
  assumes "e \<in> set (fst (poll_iteration w jobId c n))"
  shows "e = Sleep 1000 \<or> (\<exists>s. e = ConsoleLog s) \<or> (\<exists>s. e = ConsoleError s)
       \<or> (\<exists>s. jobId = Some (JStr s) \<and> e = Fetch GET (API_URL w @ ''/api/job/'' @ s) [])
       \<or> (\<exists>s r b. jobId = Some (JStr s) \<and> poll_reply w n = Inr r \<and> ok r \<and> is_pdf r
             \<and> blob_body r = Inr b \<and> e = Download (''report_'' @ take 8 s @ ''.pdf'') b)"
proof -
  from assms consider "e = Sleep 1000" | "e \<in> set (fst (poll_try w jobId c n))"
    | m where "e = ConsoleError [''Poll error: '' @ m]"
    by (auto simp: fst_poll_iteration split: sum.splits)
  then show ?thesis
  proof cases
    case 2
    from poll_try_events [OF this] show ?thesis by blast
  qed auto
qed

lemma poll_loop_unfold:
  "poll_loop w jobId c n =
     (if \<not> c \<and> n < maxPolls then
        bind (poll_iteration w jobId c (Suc n)) (\<lambda>c'. poll_loop w jobId c' (Suc n))
      else ret c)"
  by (subst poll_loop.simps) (simp add: bind_def)

lemma poll_loop_events:
  "e \<in> set (fst (poll_loop w jobId c n)) \<Longrightarrow>
     \<exists>k. n < k \<and> k \<le> maxPolls \<and> e \<in> set (fst (poll_iteration w jobId False k))"
proof (induction w jobId c n rule: poll_loop.induct)
  case (1 w jobId c n)
  show ?case
  proof (cases "\<not> c \<and> n < maxPolls")
    case False
    with "1.prems" show ?thesis by (simp add: poll_loop_unfold)
  next
    case True
    let ?it = "poll_iteration w jobId c (n + 1)"
    from True "1.prems" consider "e \<in> set (fst ?it)"
      | c' where "snd ?it = Inr c'" "e \<in> set (fst (poll_loop w jobId c' (n + 1)))"
      by (subst (asm) poll_loop_unfold) (auto simp: fst_bind split: sum.splits)
    then show ?thesis
    proof cases
      case 1
      with True show ?thesis by (intro exI [of _ "Suc n"]) auto
    next
      case 2
      obtain es where it: "?it = (es, Inr c')" using 2(1) by (cases ?it) auto
      from "1.IH" [OF True it [symmetric] refl 2(2)]
      obtain k where "n + 1 < k" "k \<le> maxPolls" "e \<in> set (fst (poll_iteration w jobId False k))"
        by blast
      then show ?thesis by (intro exI [of _ k]) auto
    qed
  qed
qed

lemma snd_poll_not_ok:
  "snd (poll_not_ok w r) =
     (case json_body r of
        Inl m \<Rightarrow> Inl m
      | Inr d \<Rightarrow>
          if status r = 400 then
            (if d = JNull then Inl (type_error w ''errorData.status'')
             else if json_member d ''status'' = Some (JStr ''error'')
               then Inl (''Processing failed: '' @ template (json_member d ''error''))
               else Inl ''Temporary polling error'')
          else Inl ''Temporary polling error'')"
  by (simp add: poll_not_ok_def io_simps snd_get_prop split: sum.splits)

lemma poll_ok_pdf:
  assumes "is_pdf r"
  shows "poll_ok w (Some (JStr s)) c r =
     (case blob_body r of
        Inl m \<Rightarrow> ([ConsoleLog (check_mark @ '' PDF ready! Downloading...'')], Inl m)
      | Inr b \<Rightarrow>
          ([ConsoleLog (check_mark @ '' PDF ready! Downloading...''),
            Download (''report_'' @ take 8 s @ ''.pdf'') b,
            ConsoleLog (check_mark @ '' Download complete!'')], Inr True))"
  using assms
  by (simp add: poll_ok_def ret_def throw_def emit_def await_def bind_def seq_def
           split: sum.splits)

lemma poll_ok_json:
  assumes "\<not> is_pdf r"
  shows "poll_ok w jobId c r =
     (case json_body r of
        Inl m \<Rightarrow> ([], Inl m)
      | Inr d \<Rightarrow>
          if d = JNull then ([], Inl (type_error w ''statusData.status''))
          else ([ConsoleLog (''Status: '' @ template (json_member d ''status'')
                   @ '' | Progress: '' @ template (json_member d ''progress'') @ ''%'')], Inr c))"
proof (cases "json_body r")
  case (Inl m)
  with assms show ?thesis
    by (simp add: poll_ok_def await_def bind_def)
next
  case (Inr d)
  show ?thesis
  proof (cases "d = JNull")
    case True
    with assms Inr show ?thesis
      by (simp add: poll_ok_def await_def bind_def throw_def)
  next
    case False
    then have "get_prop w e d k = ([], Inr (json_member d k))" for e k
      by (cases d) (simp_all add: ret_def)
    with assms Inr False show ?thesis
      by (simp add: poll_ok_def await_def bind_def seq_def emit_def ret_def)
  qed
qed

lemma poll_try_not_string:
  assumes "\<forall>s. jobId \<noteq> Some (JStr s)"
  shows "poll_try w jobId c n = ([], Inl (type_error w ''jobId.substring''))"
proof -
  from assms have "substring8 w jobId = ([], Inl (type_error w ''jobId.substring''))"
    by (cases "(w, jobId)" rule: substring8.cases) (simp_all add: throw_def)
  then show ?thesis by (simp add: poll_try_def bind_def)
qed

lemma snd_substring8_string [simp]: "snd (substring8 w (Some (JStr s))) = Inr (take 8 s)"
  by simp

lemma fst_poll_try_string:
  "fst (poll_try w (Some (JStr s)) c n) =
     [ConsoleLog (''[Poll '' @ show_nat n @ ''] Checking status for job '' @ take 8 s @ ''...''),
      Fetch GET (API_URL w @ ''/api/job/'' @ s) []]
     @ (case poll_reply w n of
          Inl m \<Rightarrow> []
        | Inr r \<Rightarrow> if ok r then fst (poll_ok w (Some (JStr s)) c r) else [])"
  by (simp add: poll_try_def fst_bind split: sum.splits)

lemma snd_poll_try_string:
  "snd (poll_try w (Some (JStr s)) c n) =
     (case poll_reply w n of
        Inl m \<Rightarrow> Inl m
      | Inr r \<Rightarrow> if ok r then snd (poll_ok w (Some (JStr s)) c r) else snd (poll_not_ok w r))"
  by (simp add: poll_try_def snd_bind split: sum.splits)


lemma temporary_not_failed [simp]: "\<not> startsWith ''Temporary polling error'' ''Processing failed''"
  by (simp add: startsWith_def)

lemma failed_prefix [simp]: "startsWith (''Processing failed: '' @ m) ''Processing failed''"
  by (simp add: startsWith_def)

lemma poll_try_failed_job:
  assumes thrown: "snd (poll_try w jobId c n) = Inl m"
    and failed: "startsWith m ''Processing failed''"
    and pm: "platform_messages w n"
  shows "job_error_reply (poll_reply w n)"
proof (cases "\<exists>s. jobId = Some (JStr s)")
  case False
  then have "m = type_error w ''jobId.substring''"
    using thrown by (simp add: poll_try_not_string)
  with failed pm show ?thesis
    by (simp add: platform_messages_def platform_message_def)
next
  case True
  then obtain s where s: "jobId = Some (JStr s)" by blast
  show ?thesis
  proof (cases "poll_reply w n")
    case (Inl m')
    with thrown s have "m = m'" by (simp add: snd_poll_try_string)
    with failed pm Inl show ?thesis
      by (simp add: platform_messages_def platform_message_def)
  next
    case (Inr r)
    from pm Inr have te: "\<not> startsWith (type_error w e) ''Processing failed''" for e
      by (simp add: platform_messages_def platform_message_def)
    from pm Inr have js: "json_body r = Inl x \<Longrightarrow> \<not> startsWith x ''Processing failed''" for x
      by (simp add: platform_messages_def platform_message_def)
    from pm Inr have bl: "blob_body r = Inl x \<Longrightarrow> \<not> startsWith x ''Processing failed''" for x
      by (simp add: platform_messages_def platform_message_def)
    show ?thesis
    proof (cases "ok r")
      case True
      with thrown s Inr have t: "snd (poll_ok w (Some (JStr s)) c r) = Inl m"
        by (simp add: snd_poll_try_string)
      show ?thesis
      proof (cases "is_pdf r")
        case True
        with t bl failed show ?thesis
          by (auto simp: poll_ok_pdf split: sum.splits)
      next
        case False
        with t js te failed show ?thesis
          by (auto simp: poll_ok_json split: sum.splits if_splits)
      qed
    next
      case False
      with thrown s Inr have t: "snd (poll_not_ok w r :: bool io) = Inl m"
        by (simp add: snd_poll_try_string)
      with js te failed have "status r = 400 \<and> (\<exists>d. json_body r = Inr d \<and>
          json_member d ''status'' = Some (JStr ''error''))"
        by (auto simp: snd_poll_not_ok split: sum.splits if_splits)
      with Inr show ?thesis by (auto simp: job_error_reply_def)
    qed
  qed
qed

lemma poll_loop_done [simp]: "poll_loop w jobId True n = ([], Inr True)"
  by (simp add: poll_loop_unfold ret_def)

lemma poll_loop_spent [simp]: "poll_loop w jobId c maxPolls = ([], Inr c)"
  by (simp add: poll_loop_unfold ret_def)

lemma poll_loop_abort:
  assumes "n < maxPolls" and "snd (poll_iteration w jobId False (Suc n)) = Inl m"
  shows "poll_loop w jobId False n = (fst (poll_iteration w jobId False (Suc n)), Inl m)"
  using assms
  by (subst poll_loop_unfold) (simp add: prod_eq_iff fst_bind snd_bind)

lemma poll_loop_continue:
  assumes "n < maxPolls" and "snd (poll_iteration w jobId False (Suc n)) = Inr c"
  shows "poll_loop w jobId False n =
     (fst (poll_iteration w jobId False (Suc n)) @ fst (poll_loop w jobId c (Suc n)),
      snd (poll_loop w jobId c (Suc n)))"
  using assms
  by (subst poll_loop_unfold) (simp add: prod_eq_iff fst_bind snd_bind)

lemma fst_upload_not_ok [simp]: "fst (upload_not_ok w r) = []"
  by (simp add: upload_not_ok_def io_simps split: sum.splits)

lemma poll_loop_no_upload: "e \<in> set (fst (poll_loop w jobId c n)) \<Longrightarrow> \<not> is_upload e"
proof -
  assume "e \<in> set (fst (poll_loop w jobId c n))"
  from poll_loop_events [OF this] obtain k where "e \<in> set (fst (poll_iteration w jobId False k))"
    by blast
  from poll_iteration_events [OF this] show ?thesis by auto
qed

lemma filter_upload_poll_loop [simp]: "filter is_upload (fst (poll_loop w jobId c n)) = []"
  using poll_loop_no_upload by (simp add: filter_empty_conv)

lemma fst_text_poll [simp]:
  "fst (DepressionDetectorForm_poll w jobId) = fst (poll_loop w jobId False 0)"
  by (simp add: DepressionDetectorForm_poll_def fst_bind split: sum.splits)

lemma fst_text_done:
  "fst (DepressionDetectorForm_done p) =
     [FormReset, Alert (check_mark @ '' Report generated and downloaded successfully!'')]
     @ (if onSuccess p then [OnSuccess] else [])"
  by (simp add: DepressionDetectorForm_done_def)

lemma filter_upload_uploaded [simp]:
  "filter is_upload (fst (DepressionDetectorForm_uploaded p w r)) = []"
  by (simp add: DepressionDetectorForm_uploaded_def fst_bind fst_seq fst_text_done
           split: sum.splits)

lemma text_try_uploads:
  "filter is_upload (fst (DepressionDetectorForm_try p w text)) =
     [Fetch POST (API_URL w @ ''/api/upload'')
        [(''llm'', FText (prop_string (llm p))), (''text'', FText text)]]"
  by (simp add: DepressionDetectorForm_try_def fst_bind split: sum.splits)

lemma text_onSubmit_uploads:
  "filter is_upload (fst (DepressionDetectorForm_onSubmit p w text)) =
     [Fetch POST (API_URL w @ ''/api/upload'')
        [(''llm'', FText (prop_string (llm p))), (''text'', FText text)]]"
  by (simp add: DepressionDetectorForm_onSubmit_def fst_catch text_try_uploads split: sum.splits)

lemma text_uploaded_ignores_prompt:
  "DepressionDetectorForm_uploaded (p\<lparr>prompt := q\<rparr>) w r = DepressionDetectorForm_uploaded p w r"
  by (simp add: DepressionDetectorForm_uploaded_def DepressionDetectorForm_done_def)

lemma text_onSubmit_ignores_prompt:
  "DepressionDetectorForm_onSubmit (p\<lparr>prompt := q\<rparr>) w text = DepressionDetectorForm_onSubmit p w text"
proof -
  have "DepressionDetectorForm_uploaded (p\<lparr>prompt := q\<rparr>) w = DepressionDetectorForm_uploaded p w"
    by (rule ext) (rule text_uploaded_ignores_prompt)
  then show ?thesis
    by (simp add: DepressionDetectorForm_onSubmit_def DepressionDetectorForm_try_def)
qed

lemma poll_try_quiet:
  "e \<in> set (fst (poll_try w jobId c n)) \<Longrightarrow> \<not> is_sleep e"
  by (drule poll_try_events) auto

lemma sleeps_poll_iteration [simp]:
  "filter is_sleep (fst (poll_iteration w jobId c n)) = [Sleep 1000]"
proof -
  have "filter is_sleep (fst (poll_try w jobId c n)) = []"
    using poll_try_quiet by (simp add: filter_empty_conv)
  then show ?thesis
    by (simp add: fst_poll_iteration split: sum.splits)
qed

lemma poll_loop_stop:
  "c \<or> \<not> n < maxPolls \<Longrightarrow> poll_loop w jobId c n = ([], Inr c)"
  by (subst poll_loop_unfold) (auto simp: ret_def)


lemma poll_loop_skip:
  assumes "\<forall>k. n < k \<and> k \<le> n + d \<longrightarrow> snd (poll_iteration w jobId False k) = Inr False"
    and "n + d \<le> maxPolls"
  shows "poll_loop w jobId False n =
     (concat (map (\<lambda>k. fst (poll_iteration w jobId False k)) [Suc n..<Suc (n + d)])
        @ fst (poll_loop w jobId False (n + d)),
      snd (poll_loop w jobId False (n + d)))"
  using assms
proof (induction d arbitrary: n)
  case 0
  then show ?case by simp
next
  case (Suc d)
  have n: "n < maxPolls" using Suc.prems(2) by simp
  have turn: "snd (poll_iteration w jobId False (Suc n)) = Inr False"
    using Suc.prems(1) by simp
  have "\<forall>k. Suc n < k \<and> k \<le> Suc n + d \<longrightarrow> snd (poll_iteration w jobId False k) = Inr False"
    using Suc.prems(1) by simp
  moreover have "Suc n + d \<le> maxPolls" using Suc.prems(2) by simp
  ultimately have IH: "poll_loop w jobId False (Suc n) =
     (concat (map (\<lambda>k. fst (poll_iteration w jobId False k)) [Suc (Suc n)..<Suc (Suc n + d)])
        @ fst (poll_loop w jobId False (Suc n + d)),
      snd (poll_loop w jobId False (Suc n + d)))"
    by (rule Suc.IH)
  have up: "[Suc n..<Suc (n + Suc d)] = Suc n # [Suc (Suc n)..<Suc (Suc n + d)]"
    by (simp add: upt_conv_Cons)
  show ?case
    by (simp only: poll_loop_continue [OF n turn] IH up) simp
qed


lemma quiet_Nil [simp]: "quiet []"
  by (simp add: quiet_def)

lemma quiet_Cons [simp]: "quiet (e # t) = (\<not> is_sleep e \<and> \<not> is_status_fetch e \<and> quiet t)"
  by (simp add: quiet_def)

lemma quiet_append [simp]: "quiet (s @ t) = (quiet s \<and> quiet t)"
  by (auto simp: quiet_def)




lemma quiet_poll_ok: "quiet (fst (poll_ok w jobId c r))"
  unfolding quiet_def
proof
  fix e assume "e \<in> set (fst (poll_ok w jobId c r))"
  from poll_ok_events [OF this] show "\<not> is_sleep e \<and> \<not> is_status_fetch e" by auto
qed




lemma fst_text_onSubmit:
  "fst (DepressionDetectorForm_onSubmit p w text) =
     fst (DepressionDetectorForm_try p w text)
     @ (case snd (DepressionDetectorForm_try p w text) of
          Inl m \<Rightarrow> catch_events m | Inr x \<Rightarrow> [])"
  by (simp add: DepressionDetectorForm_onSubmit_def fst_catch catch_events_def split: sum.splits)

lemma fst_text_try:
  "fst (DepressionDetectorForm_try p w text) =
     ConsoleLog ''Submitting text...''
     # Fetch POST (API_URL w @ ''/api/upload'')
         [(''llm'', FText (prop_string (llm p))), (''text'', FText text)]
     # (case upload_reply w of Inl m \<Rightarrow> [] | Inr u \<Rightarrow> fst (DepressionDetectorForm_uploaded p w u))"
  by (simp add: DepressionDetectorForm_try_def fst_bind split: sum.splits)

lemma snd_text_try:
  "snd (DepressionDetectorForm_try p w text) =
     (case upload_reply w of Inl m \<Rightarrow> Inl m | Inr u \<Rightarrow> snd (DepressionDetectorForm_uploaded p w u))"
  by (simp add: DepressionDetectorForm_try_def snd_bind split: sum.splits)

lemma snd_text_poll:
  "snd (DepressionDetectorForm_poll w jobId) =
     (case snd (poll_loop w jobId False 0) of
        Inl m \<Rightarrow> Inl m
      | Inr isComplete \<Rightarrow> if isComplete then Inr () else Inl timeout_message)"
  by (simp add: DepressionDetectorForm_poll_def snd_bind split: sum.splits)

lemma snd_text_done [simp]: "snd (DepressionDetectorForm_done p) = Inr ()"
  by (simp add: DepressionDetectorForm_done_def)

lemma text_uploaded_refused:
  assumes "\<not> ok u \<or> (\<exists>m. json_body u = Inl m) \<or> json_body u = Inr JNull"
  shows "fst (DepressionDetectorForm_uploaded p w u) = []"
  using assms
  by (auto simp: DepressionDetectorForm_uploaded_def fst_bind snd_get_prop split: sum.splits)

lemma fst_text_uploaded:
  assumes "ok u" and "json_body u = Inr d" and "d \<noteq> JNull"
  shows "fst (DepressionDetectorForm_uploaded p w u) =
     ConsoleLog (check_mark @ '' Job started: '' @ template (json_member d ''job_id''))
     # fst (poll_loop w (json_member d ''job_id'') False 0)
     @ (if snd (poll_loop w (json_member d ''job_id'') False 0) = Inr True
        then fst (DepressionDetectorForm_done p) else [])"
  using assms
  by (simp add: DepressionDetectorForm_uploaded_def fst_bind fst_seq snd_get_prop snd_text_poll
        split: sum.splits)

lemma snd_text_uploaded:
  assumes "ok u" and "json_body u = Inr d" and "d \<noteq> JNull"
  shows "snd (DepressionDetectorForm_uploaded p w u) =
     (case snd (poll_loop w (json_member d ''job_id'') False 0) of
        Inl m \<Rightarrow> Inl m
      | Inr isComplete \<Rightarrow> if isComplete then Inr () else Inl timeout_message)"
  using assms
  by (simp add: DepressionDetectorForm_uploaded_def snd_bind snd_seq snd_get_prop snd_text_poll
        split: sum.splits)

lemma text_onSubmit_run:
  assumes "upload_reply w = Inr u" and "ok u" and "json_body u = Inr d" and "d \<noteq> JNull"
  shows "fst (DepressionDetectorForm_onSubmit p w text) =
     [ConsoleLog ''Submitting text...'',
      Fetch POST (API_URL w @ ''/api/upload'')
         [(''llm'', FText (prop_string (llm p))), (''text'', FText text)],
      ConsoleLog (check_mark @ '' Job started: '' @ template (json_member d ''job_id''))]
     @ fst (poll_loop w (json_member d ''job_id'') False 0)
     @ (case snd (poll_loop w (json_member d ''job_id'') False 0) of
          Inl m \<Rightarrow> catch_events m
        | Inr isComplete \<Rightarrow>
            if isComplete then fst (DepressionDetectorForm_done p)
            else catch_events timeout_message)"
  using assms
  by (simp add: fst_text_onSubmit fst_text_try snd_text_try fst_text_uploaded snd_text_uploaded
        split: sum.splits)

lemma quiet_catch_events [simp]: "quiet (catch_events m)"
  by (simp add: catch_events_def)

lemma quiet_text_done [simp]: "quiet (fst (DepressionDetectorForm_done p))"
  by (simp add: fst_text_done)


lemma is_pdf_content_type:
  "is_pdf r = (\<exists>ct. content_type r = Some ct \<and> js_includes ct ''application/pdf'')"
  by (cases "content_type r") (auto simp: is_pdf_def)

lemma poll_iteration_pdf:
  assumes "poll_reply w n = Inr r" and "ok r" and "is_pdf r" and "blob_body r = Inr b"
  shows "poll_iteration w (Some (JStr s)) c n =
     ([Sleep 1000,
       ConsoleLog (''[Poll '' @ show_nat n @ ''] Checking status for job '' @ take 8 s @ ''...''),
       Fetch GET (API_URL w @ ''/api/job/'' @ s) [],
       ConsoleLog (check_mark @ '' PDF ready! Downloading...''),
       Download (''report_'' @ take 8 s @ ''.pdf'') b,
       ConsoleLog (check_mark @ '' Download complete!'')], Inr True)"
  using assms
  by (simp add: prod_eq_iff fst_poll_iteration snd_poll_iteration fst_poll_try_string
        snd_poll_try_string poll_ok_pdf)

lemma poll_iteration_json:
  assumes "poll_reply w n = Inr r" and "ok r" and "\<not> is_pdf r" and "json_body r = Inr d"
    and "d \<noteq> JNull"
  shows "poll_iteration w (Some (JStr s)) c n =
     ([Sleep 1000,
       ConsoleLog (''[Poll '' @ show_nat n @ ''] Checking status for job '' @ take 8 s @ ''...''),
       Fetch GET (API_URL w @ ''/api/job/'' @ s) [],
       ConsoleLog (''Status: '' @ template (json_member d ''status'')
          @ '' | Progress: '' @ template (json_member d ''progress'') @ ''%'')], Inr c)"
  using assms
  by (simp add: prod_eq_iff fst_poll_iteration snd_poll_iteration fst_poll_try_string
        snd_poll_try_string poll_ok_json)

lemma poll_ok_pdf_ignores_json:
  "is_pdf r \<Longrightarrow> poll_ok w jobId c (r\<lparr>json_body := j\<rparr>) = poll_ok w jobId c r"
  by (simp add: poll_ok_def is_pdf_def)

lemma poll_ok_json_ignores_blob:
  "\<not> is_pdf r \<Longrightarrow> poll_ok w jobId c (r\<lparr>blob_body := b\<rparr>) = poll_ok w jobId c r"
  by (simp add: poll_ok_def is_pdf_def)

lemma poll_iteration_json_no_download:
  assumes "poll_reply w n = Inr r" and "\<not> is_pdf r"
  shows "filter is_download (fst (poll_iteration w jobId c n)) = []"
proof -
  have "\<not> is_download e" if "e \<in> set (fst (poll_iteration w jobId c n))" for e
    using poll_iteration_events [OF that] assms by auto
  then show ?thesis by (simp add: filter_empty_conv)
qed

lemma poll_iteration_job_error:
  assumes "poll_reply w n = Inr r" and "status r = 400" and "json_body r = Inr d"
    and "json_member d ''status'' = Some (JStr ''error'')"
  shows "poll_iteration w (Some (JStr s)) c n =
     ([Sleep 1000,
       ConsoleLog (''[Poll '' @ show_nat n @ ''] Checking status for job '' @ take 8 s @ ''...''),
       Fetch GET (API_URL w @ ''/api/job/'' @ s) [],
       ConsoleError [''Poll error: Processing failed: '' @ template (json_member d ''error'')]],
      Inl (''Processing failed: '' @ template (json_member d ''error'')))"
proof -
  from assms(4) have d: "d \<noteq> JNull" by auto
  from assms(2) have nok: "\<not> ok r" by (simp add: ok_def)
  from assms d have "snd (poll_not_ok w r :: bool io) =
      Inl (''Processing failed: '' @ template (json_member d ''error''))"
    by (simp add: snd_poll_not_ok)
  with assms(1) nok show ?thesis
    by (simp add: prod_eq_iff fst_poll_iteration snd_poll_iteration fst_poll_try_string
        snd_poll_try_string startsWith_def)
qed

lemma poll_iteration_other_error:
  assumes "poll_reply w n = Inr r" and "\<not> ok r" and "status r \<noteq> 400" and "json_body r = Inr d"
  shows "poll_iteration w (Some (JStr s)) c n =
     ([Sleep 1000,
       ConsoleLog (''[Poll '' @ show_nat n @ ''] Checking status for job '' @ take 8 s @ ''...''),
       Fetch GET (API_URL w @ ''/api/job/'' @ s) [],
       ConsoleError [''Poll error: Temporary polling error'']], Inr c)"
proof -
  from assms have "snd (poll_not_ok w r :: bool io) = Inl ''Temporary polling error''"
    by (simp add: snd_poll_not_ok)
  with assms(1,2) show ?thesis
    by (simp add: prod_eq_iff fst_poll_iteration snd_poll_iteration fst_poll_try_string
        snd_poll_try_string startsWith_def)
qed

lemma status_fetches_iteration_string:
  "filter is_status_fetch (fst (poll_iteration w (Some (JStr s)) c n)) =
     [Fetch GET (API_URL w @ ''/api/job/'' @ s) []]"
proof -
  have "filter is_status_fetch (fst (poll_ok w (Some (JStr s)) c r)) = []" for r
    using quiet_poll_ok [of w "Some (JStr s)" c r] by (simp add: quiet_def filter_empty_conv)
  then show ?thesis
    by (simp add: fst_poll_iteration fst_poll_try_string split: sum.splits)
qed

lemma length_concat_singletons:
  assumes "\<And>x. x \<in> set xs \<Longrightarrow> length (filter P (f x)) = 1"
  shows "length (filter P (concat (map f xs))) = length xs"
  using assms by (induction xs) simp_all


lemma poll_loop_from_start:
  assumes "\<forall>i. 0 < i \<and> i \<le> k \<longrightarrow> snd (poll_iteration w jobId False i) = Inr False"
    and "k \<le> maxPolls"
  shows "poll_loop w jobId False 0 =
     (concat (map (\<lambda>i. fst (poll_iteration w jobId False i)) [1..<Suc k])
        @ fst (poll_loop w jobId False k),
      snd (poll_loop w jobId False k))"
  using poll_loop_skip [of 0 k w jobId] assms by simp

lemma text_onSubmit_timeout:
  assumes "upload_reply w = Inr u" and "ok u" and "json_body u = Inr d" and "d \<noteq> JNull"
    and "\<forall>i. 0 < i \<and> i \<le> maxPolls \<longrightarrow>
           snd (poll_iteration w (json_member d ''job_id'') False i) = Inr False"
  shows "fst (DepressionDetectorForm_onSubmit p w text) =
     [ConsoleLog ''Submitting text...'',
      Fetch POST (API_URL w @ ''/api/upload'')
         [(''llm'', FText (prop_string (llm p))), (''text'', FText text)],
      ConsoleLog (check_mark @ '' Job started: '' @ template (json_member d ''job_id''))]
     @ concat (map (\<lambda>i. fst (poll_iteration w (json_member d ''job_id'') False i))
         [1..<Suc maxPolls])
     @ catch_events timeout_message"
proof -
  from poll_loop_from_start [OF assms(5) order_refl]
  have "poll_loop w (json_member d ''job_id'') False 0 =
     (concat (map (\<lambda>i. fst (poll_iteration w (json_member d ''job_id'') False i))
         [1..<Suc maxPolls]), Inr False)"
    by simp
  with text_onSubmit_run [OF assms(1-4), of p "text"] show ?thesis
    by simp
qed

lemma text_onSubmit_job_error:
  assumes "upload_reply w = Inr u" and "ok u" and "json_body u = Inr ud"
    and "json_member ud ''job_id'' = Some (JStr s)"
    and "\<forall>i. 0 < i \<and> i \<le> k \<longrightarrow> snd (poll_iteration w (Some (JStr s)) False i) = Inr False"
    and "k < maxPolls"
    and "poll_reply w (Suc k) = Inr r" and "status r = 400" and "json_body r = Inr d"
    and "json_member d ''status'' = Some (JStr ''error'')"
  shows "fst (DepressionDetectorForm_onSubmit p w text) =
     [ConsoleLog ''Submitting text...'',
      Fetch POST (API_URL w @ ''/api/upload'')
         [(''llm'', FText (prop_string (llm p))), (''text'', FText text)],
      ConsoleLog (check_mark @ '' Job started: '' @ s)]
     @ concat (map (\<lambda>i. fst (poll_iteration w (Some (JStr s)) False i)) [1..<Suc k])
     @ fst (poll_iteration w (Some (JStr s)) False (Suc k))
     @ catch_events (''Processing failed: '' @ template (json_member d ''error''))"
proof -
  from assms(4) have ud: "ud \<noteq> JNull" by auto
  from assms(6) have k: "k \<le> maxPolls" by simp
  have last: "snd (poll_iteration w (Some (JStr s)) False (Suc k)) =
      Inl (''Processing failed: '' @ template (json_member d ''error''))"
    using poll_iteration_job_error [OF assms(7-10)] by simp
  have "poll_loop w (Some (JStr s)) False 0 =
     (concat (map (\<lambda>i. fst (poll_iteration w (Some (JStr s)) False i)) [1..<Suc k])
        @ fst (poll_iteration w (Some (JStr s)) False (Suc k)),
      Inl (''Processing failed: '' @ template (json_member d ''error'')))"
    using poll_loop_from_start [OF assms(5) k] poll_loop_abort [OF assms(6) last] by simp
  with text_onSubmit_run [OF assms(1-3) ud, of p "text"] assms(4) show ?thesis
    by simp
qed

lemma poll_iteration_swallowed:
  assumes "snd (poll_try w jobId c n) = Inl m" and "\<not> startsWith m ''Processing failed''"
  shows "poll_iteration w jobId c n =
     (Sleep 1000 # fst (poll_try w jobId c n) @ [ConsoleError [''Poll error: '' @ m]], Inr c)"
  using assms by (simp add: prod_eq_iff fst_poll_iteration snd_poll_iteration)

lemma poll_iteration_aborts:
  assumes "snd (poll_iteration w jobId c n) = Inl m"
  shows "snd (poll_try w jobId c n) = Inl m \<and> startsWith m ''Processing failed''"
  using assms by (auto simp: snd_poll_iteration split: sum.splits if_splits)


lemma quiet_no_status_fetch: "quiet t \<Longrightarrow> filter is_status_fetch t = []"
  by (simp add: quiet_def filter_empty_conv)





lemma substring8_upload [simp]:
  "substring8 (w\<lparr>upload_reply := a\<rparr>) jobId = substring8 w jobId"
  by (cases "(w, jobId)" rule: substring8.cases) simp_all

lemma get_prop_upload [simp]:
  "get_prop (w\<lparr>upload_reply := a\<rparr>) e d k = get_prop w e d k"
  by (cases d) simp_all

lemma API_URL_upload [simp]: "API_URL (w\<lparr>upload_reply := a\<rparr>) = API_URL w"
  by (simp add: API_URL_def)

lemma poll_not_ok_upload [simp]:
  "poll_not_ok (w\<lparr>upload_reply := a\<rparr>) r = poll_not_ok w r"
  by (simp add: poll_not_ok_def cong: if_cong)

lemma poll_ok_upload [simp]:
  "poll_ok (w\<lparr>upload_reply := a\<rparr>) jobId c r = poll_ok w jobId c r"
  by (simp add: poll_ok_def is_pdf_def cong: if_cong)

lemma poll_reply_upload: "poll_reply (w\<lparr>upload_reply := a\<rparr>) = poll_reply w"
  by simp

lemma poll_try_upload:
  "poll_try (w\<lparr>upload_reply := a\<rparr>) jobId c n = poll_try w jobId c n"
  unfolding poll_try_def substring8_upload API_URL_upload poll_reply_upload poll_not_ok_upload
    poll_ok_upload ..

lemma poll_iteration_upload [simp]:
  "poll_iteration (w\<lparr>upload_reply := a\<rparr>) jobId c n = poll_iteration w jobId c n"
  unfolding poll_iteration_def poll_try_upload ..

lemma poll_loop_upload [simp]:
  "poll_loop (w\<lparr>upload_reply := a\<rparr>) jobId c n = poll_loop w jobId c n"
proof (induction "maxPolls - n" arbitrary: n c)
  case 0
  then have "\<not> n < maxPolls" by simp
  then show ?case by (simp add: poll_loop_stop)
next
  case (Suc m)
  then have "m = maxPolls - Suc n" by simp
  from Suc.hyps(1) [OF this]
  have "(\<lambda>c'. poll_loop (w\<lparr>upload_reply := a\<rparr>) jobId c' (Suc n)) =
        (\<lambda>c'. poll_loop w jobId c' (Suc n))" by (intro ext)
  then show ?case
    by (subst poll_loop_unfold, subst (2) poll_loop_unfold) simp
qed

lemma text_uploaded_world [simp]:
  "DepressionDetectorForm_uploaded p (w\<lparr>upload_reply := a\<rparr>) u = DepressionDetectorForm_uploaded p w u"
  by (simp add: DepressionDetectorForm_uploaded_def DepressionDetectorForm_poll_def
      upload_not_ok_def cong: if_cong)

lemma text_uploaded_blob [simp]:
  "DepressionDetectorForm_uploaded p w (u\<lparr>blob_body := x\<rparr>) = DepressionDetectorForm_uploaded p w u"
  by (simp add: DepressionDetectorForm_uploaded_def upload_not_ok_def ok_def cong: if_cong)

lemma text_onSubmit_upload_blob:
  "DepressionDetectorForm_onSubmit p (w\<lparr>upload_reply := Inr (u\<lparr>blob_body := x\<rparr>)\<rparr>) text =
   DepressionDetectorForm_onSubmit p (w\<lparr>upload_reply := Inr u\<rparr>) text"
proof -
  have "DepressionDetectorForm_uploaded p (w\<lparr>upload_reply := a\<rparr>) = DepressionDetectorForm_uploaded p w"
    for a by (intro ext) simp
  then show ?thesis
    by (simp add: DepressionDetectorForm_onSubmit_def DepressionDetectorForm_try_def
        await_def bind_def)
qed

lemma text_download_origin:
  assumes "Download name bytes \<in> set (fst (DepressionDetectorForm_onSubmit p w text))"
  shows "\<exists>u d s k r. upload_reply w = Inr u \<and> ok u \<and> json_body u = Inr d
      \<and> json_member d ''job_id'' = Some (JStr s)
      \<and> 0 < k \<and> k \<le> maxPolls \<and> poll_reply w k = Inr r \<and> ok r \<and> is_pdf r
      \<and> blob_body r = Inr bytes \<and> name = ''report_'' @ take 8 s @ ''.pdf''"
proof -
  from assms have "Download name bytes \<in> set (fst (DepressionDetectorForm_try p w text))"
    by (auto simp: fst_text_onSubmit catch_events_def split: sum.splits)
  then obtain u where u: "upload_reply w = Inr u"
    and in_up: "Download name bytes \<in> set (fst (DepressionDetectorForm_uploaded p w u))"
    by (cases "upload_reply w") (simp_all add: fst_text_try)
  have "\<not> (\<not> ok u \<or> (\<exists>m. json_body u = Inl m) \<or> json_body u = Inr JNull)"
  proof
    assume "\<not> ok u \<or> (\<exists>m. json_body u = Inl m) \<or> json_body u = Inr JNull"
    from text_uploaded_refused [OF this, of p w] in_up show False by simp
  qed
  then obtain d where d: "ok u" "json_body u = Inr d" "d \<noteq> JNull"
    by (cases "json_body u") auto
  from in_up have "Download name bytes \<in> set (fst (poll_loop w (json_member d ''job_id'') False 0))"
    by (auto simp: fst_text_uploaded [OF d] fst_text_done split: if_splits)
  from poll_loop_events [OF this] obtain k where k: "0 < k" "k \<le> maxPolls"
    and "Download name bytes \<in> set (fst (poll_iteration w (json_member d ''job_id'') False k))"
    by blast
  from poll_iteration_events [OF this(3)]
  obtain s r b where "json_member d ''job_id'' = Some (JStr s)" "poll_reply w k = Inr r"
    "ok r" "is_pdf r" "blob_body r = Inr b"
    "Download name bytes = Download (''report_'' @ take 8 s @ ''.pdf'') b"
    by auto
  with u d k show ?thesis by auto
qed


lemma text_status_fetch_origin:
  assumes "e \<in> set (fst (DepressionDetectorForm_onSubmit p w text))" and "is_status_fetch e"
  shows "\<exists>u d s. upload_reply w = Inr u \<and> ok u \<and> json_body u = Inr d
      \<and> json_member d ''job_id'' = Some (JStr s)
      \<and> e = Fetch GET (API_URL w @ ''/api/job/'' @ s) []"
proof -
  from assms have "e \<in> set (fst (DepressionDetectorForm_try p w text))"
    by (auto simp: fst_text_onSubmit catch_events_def split: sum.splits)
  with assms(2) obtain u where u: "upload_reply w = Inr u"
    and in_up: "e \<in> set (fst (DepressionDetectorForm_uploaded p w u))"
    by (cases "upload_reply w") (auto simp: fst_text_try)
  have "\<not> (\<not> ok u \<or> (\<exists>m. json_body u = Inl m) \<or> json_body u = Inr JNull)"
  proof
    assume "\<not> ok u \<or> (\<exists>m. json_body u = Inl m) \<or> json_body u = Inr JNull"
    from text_uploaded_refused [OF this, of p w] in_up show False by simp
  qed
  then obtain d where d: "ok u" "json_body u = Inr d" "d \<noteq> JNull"
    by (cases "json_body u") auto
  from in_up assms(2) have "e \<in> set (fst (poll_loop w (json_member d ''job_id'') False 0))"
    by (auto simp: fst_text_uploaded [OF d] fst_text_done split: if_splits)
  from poll_loop_events [OF this] obtain k where
    "e \<in> set (fst (poll_iteration w (json_member d ''job_id'') False k))"
    by blast
  from poll_iteration_events [OF this] assms(2)
  obtain s where "json_member d ''job_id'' = Some (JStr s)"
    "e = Fetch GET (API_URL w @ ''/api/job/'' @ s) []"
    by auto
  with u d show ?thesis by auto
qed

text \<open>The definitions a run on a concrete input unfolds.\<close>

lemmas run_defs =
  DepressionDetectorForm_handleSubmit_def DepressionDetectorForm_onSubmit_def
  DepressionDetectorForm_try_def DepressionDetectorForm_uploaded_def
  DepressionDetectorForm_poll_def DepressionDetectorForm_done_def
  poll_iteration_def poll_try_def poll_ok_def poll_not_ok_def poll_catch_def upload_not_ok_def
  ContactForm_handleSubmit_def ContactForm_onSubmit_def ContactForm_try_def file_not_ok_def
  text_rules_def file_rules_def is_pdf_def ok_def API_URL_def maxPolls_def prop_string_def
  startsWith_def timeout_message_def
  ret_def throw_def emit_def await_def bind_def seq_def catch_def

text \<open>The replies of the concrete servers, and what their turns give.\<close>

lemmas reply_defs =
  quick_server_def slow_server_def flaky_network_def failing_server_def sync_server_def
  job_started_def job_running_def job_failed_def pdf_reply_def json_reply_def gemini_simple_def

lemma failing_server_turns:
  "st \<noteq> 400 \<Longrightarrow> st \<notin> {200..299} \<Longrightarrow>
   snd (poll_iteration (failing_server st st_text) (Some (JStr s)) False i) = Inr False"
  by (simp add: snd_poll_iteration snd_poll_try_string snd_poll_not_ok poll_ok_json
      reply_defs ok_def is_pdf_def startsWith_def)

lemma failing_server_first_turns:
  "i < 3 \<Longrightarrow>
   snd (poll_iteration (failing_server st st_text) (Some (JStr s)) False i) = Inr False"
  by (simp add: snd_poll_iteration snd_poll_try_string snd_poll_not_ok poll_ok_json
      reply_defs ok_def is_pdf_def startsWith_def)


section \<open>The analysis types of the dialog\<close>

lemma prompt_values:
  "map opt_value PROMPT_OPTIONS =
     [''simple'', ''structured'', ''feature_extraction'', ''chain_of_thought'', ''few_shot'',
      ''free_form'']"
  by (simp add: PROMPT_OPTIONS_def)

lemma txt_step_prompt:
  assumes "selectedPrompt st \<in> set (map opt_value PROMPT_OPTIONS)"
  shows "selectedPrompt (txt_step st a) \<in> set (map opt_value PROMPT_OPTIONS)"
proof (cases a)
  case (ClickPrompt i)
  show ?thesis
  proof (cases "i < length PROMPT_OPTIONS")
    case True
    then have "opt_value (PROMPT_OPTIONS ! i) \<in> set (map opt_value PROMPT_OPTIONS)"
      by (metis length_map nth_map nth_mem)
    with True ClickPrompt show ?thesis by simp
  next
    case False
    with ClickPrompt assms show ?thesis by simp
  qed
qed (use assms in simp_all)

lemma txt_run_prompt:
  "selectedPrompt st \<in> set (map opt_value PROMPT_OPTIONS) \<Longrightarrow>
   selectedPrompt (foldl txt_step st acts) \<in> set (map opt_value PROMPT_OPTIONS)"
proof (induction acts arbitrary: st)
  case Nil
  then show ?case by simp
next
  case (Cons a acts)
  from Cons.IH [OF txt_step_prompt [OF Cons.prems]] show ?case by simp
qed

text \<open>
  C6: the analysis types are the compiled-in list \<open>PROMPT_OPTIONS\<close>, whose values are
  exactly the six identifiers simple, structured, feature_extraction, chain_of_thought,
  few_shot and free_form, each once; the menu is rendered from that list, and whatever
  the user does in the dialog, the selected analysis type is one of the six.
\<close>

theorem prompt_strategies_closed:
  "map opt_value PROMPT_OPTIONS =
     [''simple'', ''structured'', ''feature_extraction'', ''chain_of_thought'', ''few_shot'',
      ''free_form'']
   \<and> distinct (map opt_value PROMPT_OPTIONS)
   \<and> selectedPrompt (foldl txt_step DataUploadTxt_init acts) \<in> set (map opt_value PROMPT_OPTIONS)"
proof -
  have "selectedPrompt DataUploadTxt_init \<in> set (map opt_value PROMPT_OPTIONS)"
    by (simp add: DataUploadTxt_init_def prompt_values)
  then show ?thesis
    using txt_run_prompt by (simp add: prompt_values)
qed

section \<open>Reading the status of a finished job\<close>

lemma getStatus_times_read:
  "getStatus_times n jobs jobId = (replicate n (fst (getStatus jobs jobId)), jobs)"
  by (induction n) (simp_all add: getStatus_def split: option.splits)

text \<open>
  C10: for a job of the store that is complete or in error, any number of calls of
  \<open>getStatus\<close> return the same view every time, the result of a complete job and the
  error of a failed one, and leave the store, hence the job, as it was.
\<close>

theorem getStatus_idempotent_on_terminal:
  assumes "jobs jobId = Some j" and "terminal j"
  shows "getStatus_times n jobs jobId = (replicate n (Inr (job_view_of j)), jobs)
       \<and> snd (getStatus jobs jobId) = jobs
       \<and> job_view_of j =
           (if job_status j = Complete then ResultView (result j) else ErrorView (job_error j))"
  using assms by (auto simp: getStatus_times_read getStatus_def terminal_def job_view_of_def)

theorem getStatus_idempotent_on_terminal_witness:
  "getStatus_times 3 [''4f2a'' \<mapsto> done_job] ''4f2a'' =
     (replicate 3 (Inr (ResultView (Some (''{label: depressed, confidence: 0.82}'', ''%PDF-1.4'')))),
      [''4f2a'' \<mapsto> done_job])"
  using getStatus_idempotent_on_terminal [of "[''4f2a'' \<mapsto> done_job]" "''4f2a''" done_job 3]
  by (simp add: terminal_def job_view_of_def done_job_def numeral_3_eq_3)

section \<open>What a submission sends\<close>

text \<open>
  C7: a submission from the text dialog that passes the rules of the form makes one POST
  to the upload endpoint, whose body has exactly the fields \<open>llm\<close> and \<open>text\<close>, in that
  order, with the selected model and the text; the analysis type selected in the dialog,
  passed as the prop \<open>prompt\<close>, changes nothing of what the form does, so no request
  carries it.
\<close>

theorem text_upload_sends_llm_and_text_only:
  "filter is_upload (fst (DataUploadTxt_submit st w text)) =
     (if text_rules text = None
      then [Fetch POST (API_URL w @ ''/api/upload'')
              [(''llm'', FText (selectedLLM st)), (''text'', FText text)]]
      else [])
   \<and> map body_fields (filter is_upload (fst (DataUploadTxt_submit st w text))) =
       (if text_rules text = None then [[''llm'', ''text'']] else [])
   \<and> DataUploadTxt_submit (st\<lparr>selectedPrompt := q\<rparr>) w text = DataUploadTxt_submit st w text
   \<and> DepressionDetectorForm_onSubmit (p\<lparr>prompt := q'\<rparr>) w text =
       DepressionDetectorForm_onSubmit p w text"
proof -
  have sub: "DataUploadTxt_submit st w text =
      (case text_rules text of Some m \<Rightarrow> emit (FieldError m)
       | None \<Rightarrow> DepressionDetectorForm_onSubmit (DataUploadTxt_props st) w text)" for st
    by (simp add: DataUploadTxt_submit_def DepressionDetectorForm_handleSubmit_def)
  have ups: "filter is_upload (fst (DataUploadTxt_submit st w text)) =
     (if text_rules text = None
      then [Fetch POST (API_URL w @ ''/api/upload'')
              [(''llm'', FText (selectedLLM st)), (''text'', FText text)]]
      else [])"
    using text_onSubmit_uploads [of "DataUploadTxt_props st" w "text"]
    by (auto simp: sub DataUploadTxt_props_def prop_string_def split: option.splits)
  have ind: "DataUploadTxt_submit (st\<lparr>selectedPrompt := q\<rparr>) w text = DataUploadTxt_submit st w text"
    using text_onSubmit_ignores_prompt [where p = "DataUploadTxt_props st" and q = "Some q" and w = w]
    by (simp add: sub DataUploadTxt_props_def split: option.splits)
  show ?thesis
    using ups ind text_onSubmit_ignores_prompt by simp
qed

lemma fst_file_not_ok [simp]: "fst (file_not_ok w r) = []"
  by (simp add: file_not_ok_def io_simps split: sum.splits)

lemma ContactForm_try_uploads:
  "filter is_upload (fst (ContactForm_try p w file)) =
     (case file of
        None \<Rightarrow> []
      | Some f \<Rightarrow> [Fetch POST ''http://localhost:5000/api/upload'' [(''file'', FFile f)]])"
  by (simp add: ContactForm_try_def fst_bind split: option.splits sum.splits)

lemma ContactForm_uploads:
  "filter is_upload (fst (ContactForm_onSubmit p w file)) =
     (case file of
        None \<Rightarrow> []
      | Some f \<Rightarrow> [Fetch POST ''http://localhost:5000/api/upload'' [(''file'', FFile f)]])"
  by (simp add: ContactForm_onSubmit_def fst_catch ContactForm_try_uploads split: sum.splits)

lemma ContactForm_ignores_llm:
  "ContactForm_onSubmit (p\<lparr>llm := l\<rparr>) w file = ContactForm_onSubmit p w file"
  by (simp add: ContactForm_onSubmit_def ContactForm_try_def)

text \<open>
  C8: a submission from the file dialog with a file chosen makes one POST to the upload
  endpoint, whose body has the field \<open>file\<close> and no other; the model selected in the
  dialog, passed as the prop \<open>llm\<close>, is not taken by the form and changes nothing of what
  it does, so no request carries it.
\<close>

theorem file_upload_sends_only_file:
  "filter is_upload (fst (DataUpload_submit st w file)) =
     (case file of
        None \<Rightarrow> []
      | Some f \<Rightarrow> [Fetch POST ''http://localhost:5000/api/upload'' [(''file'', FFile f)]])
   \<and> map body_fields (filter is_upload (fst (DataUpload_submit st w file))) =
       (case file of None \<Rightarrow> [] | Some f \<Rightarrow> [[''file'']])
   \<and> DataUpload_submit (st\<lparr>file_selectedLLM := l\<rparr>) w file = DataUpload_submit st w file
   \<and> ContactForm_onSubmit (p\<lparr>llm := l'\<rparr>) w file = ContactForm_onSubmit p w file"
proof -
  have sub: "DataUpload_submit st w file =
      (case file of None \<Rightarrow> emit (FieldError ''Please select a file to analyze'')
       | Some f \<Rightarrow> ContactForm_onSubmit (DataUpload_props st) w file)" for st
    by (simp add: DataUpload_submit_def ContactForm_handleSubmit_def file_rules_def
             split: option.splits)
  have ups: "filter is_upload (fst (DataUpload_submit st w file)) =
     (case file of
        None \<Rightarrow> []
      | Some f \<Rightarrow> [Fetch POST ''http://localhost:5000/api/upload'' [(''file'', FFile f)]])"
    using ContactForm_uploads [of "DataUpload_props st" w "file"]
    by (simp add: sub split: option.splits)
  have ind: "DataUpload_submit (st\<lparr>file_selectedLLM := l\<rparr>) w file = DataUpload_submit st w file"
    using ContactForm_ignores_llm [where p = "DataUpload_props st" and l = "Some l" and w = w]
    by (simp add: sub DataUpload_props_def split: option.splits)
  show ?thesis
    using ups ind ContactForm_ignores_llm by (simp split: option.splits)
qed

section \<open>The rules of the text field\<close>

text \<open>
  C5, as the claim states it, fails: a text of ten spaces is empty after trimming, and yet
  it passes the rules of the field and is posted as it was typed; with a server that
  accepts it the run goes on to the download of a report.
\<close>

theorem whitespace_text_is_submitted:
  "js_trim ''          '' = [] \<and>
   DepressionDetectorForm_handleSubmit gemini_simple quick_server ''          '' =
     ([ConsoleLog ''Submitting text...'',
       Fetch POST ''http://localhost:5000/api/upload''
         [(''llm'', FText ''Gemini''), (''text'', FText ''          '')],
       ConsoleLog (check_mark @ '' Job started: 4f2a9c1e-77''),
       Sleep 1000,
       ConsoleLog ''[Poll 1] Checking status for job 4f2a9c1e...'',
       Fetch GET ''http://localhost:5000/api/job/4f2a9c1e-77'' [],
       ConsoleLog (check_mark @ '' PDF ready! Downloading...''),
       Download ''report_4f2a9c1e.pdf'' ''%PDF-1.4'',
       ConsoleLog (check_mark @ '' Download complete!''),
       FormReset,
       Alert (check_mark @ '' Report generated and downloaded successfully!''),
       OnSuccess], Inr ())"
  by (simp add: run_defs js_trim_def is_space_def gemini_simple_def quick_server_def
        job_started_def json_reply_def pdf_reply_def poll_loop.simps)

text \<open>
  C5, amended: a text shorter than 10 characters, the empty text included, fails the rules
  of the field at once: a message is shown under the field and nothing else happens, so
  no request is sent and no job is created. The length is that of the text as typed:
  nothing is trimmed, and a text of 10 characters or more, whatever they are, is handed
  to \<open>onSubmit\<close>, which posts it.
\<close>

theorem text_rules_gate:
  "(length text < 10 \<longrightarrow>
      (\<exists>m. DepressionDetectorForm_handleSubmit p w text = ([FieldError m], Inr ())))
   \<and> (10 \<le> length text \<longrightarrow>
      DepressionDetectorForm_handleSubmit p w text = DepressionDetectorForm_onSubmit p w text
      \<and> filter is_upload (fst (DepressionDetectorForm_handleSubmit p w text)) =
          [Fetch POST (API_URL w @ ''/api/upload'')
             [(''llm'', FText (prop_string (llm p))), (''text'', FText text)]])"
proof (intro conjI impI)
  assume "length text < 10"
  then show "\<exists>m. DepressionDetectorForm_handleSubmit p w text = ([FieldError m], Inr ())"
    by (simp add: DepressionDetectorForm_handleSubmit_def text_rules_def emit_def)
next
  assume long: "10 \<le> length text"
  then have "text_rules text = None"
    by (auto simp: text_rules_def)
  then show "DepressionDetectorForm_handleSubmit p w text = DepressionDetectorForm_onSubmit p w text"
    by (simp add: DepressionDetectorForm_handleSubmit_def)
  then show "filter is_upload (fst (DepressionDetectorForm_handleSubmit p w text)) =
          [Fetch POST (API_URL w @ ''/api/upload'')
             [(''llm'', FText (prop_string (llm p))), (''text'', FText text)]]"
    by (simp add: text_onSubmit_uploads)
qed

theorem text_rules_gate_witness:
  "length ''so tired'' < 10
   \<and> DepressionDetectorForm_handleSubmit gemini_simple quick_server ''so tired'' =
       ([FieldError ''Text must be at least 10 characters''], Inr ())
   \<and> DepressionDetectorForm_handleSubmit gemini_simple quick_server [] =
       ([FieldError ''Please enter text to analyze''], Inr ())
   \<and> 10 \<le> length ''I feel hopeless and exhausted every day.''
   \<and> filter is_upload (fst (DepressionDetectorForm_handleSubmit gemini_simple quick_server
         ''I feel hopeless and exhausted every day.'')) =
       [Fetch POST ''http://localhost:5000/api/upload''
         [(''llm'', FText ''Gemini''), (''text'', FText ''I feel hopeless and exhausted every day.'')]]"
  using text_rules_gate [of "''so tired''" gemini_simple quick_server]
    text_rules_gate [of "[]" gemini_simple quick_server]
    text_rules_gate [of "''I feel hopeless and exhausted every day.''" gemini_simple quick_server]
  by (simp add: DepressionDetectorForm_handleSubmit_def text_rules_def emit_def
        API_URL_def prop_string_def gemini_simple_def quick_server_def)

section \<open>The two shapes of a status response\<close>

text \<open>
  C3: a poll that gets a success response tells its two shapes apart by the declared
  content type and by nothing else. When the content type includes \<open>application/pdf\<close>
  the body is read as raw bytes, which are downloaded as the report, and the poll
  completes; the JSON reading of the body plays no part. Otherwise the body is parsed as
  JSON, its \<open>status\<close> and \<open>progress\<close> members are logged, nothing is downloaded and the
  loop goes on; the raw bytes play no part.
\<close>

theorem status_shape_by_content_type:
  assumes "poll_reply w n = Inr r" and "ok r"
  shows "is_pdf r = (\<exists>ct. content_type r = Some ct \<and> js_includes ct ''application/pdf'')
    \<and> (is_pdf r \<longrightarrow>
         poll_ok w jobId c (r\<lparr>json_body := j\<rparr>) = poll_ok w jobId c r
         \<and> (\<forall>b. blob_body r = Inr b \<longrightarrow>
               poll_iteration w (Some (JStr s)) c n =
                 ([Sleep 1000,
                   ConsoleLog (''[Poll '' @ show_nat n @ ''] Checking status for job ''
                      @ take 8 s @ ''...''),
                   Fetch GET (API_URL w @ ''/api/job/'' @ s) [],
                   ConsoleLog (check_mark @ '' PDF ready! Downloading...''),
                   Download (''report_'' @ take 8 s @ ''.pdf'') b,
                   ConsoleLog (check_mark @ '' Download complete!'')], Inr True)))
    \<and> (\<not> is_pdf r \<longrightarrow>
         poll_ok w jobId c (r\<lparr>blob_body := x\<rparr>) = poll_ok w jobId c r
         \<and> filter is_download (fst (poll_iteration w jobId c n)) = []
         \<and> (\<forall>d. json_body r = Inr d \<and> d \<noteq> JNull \<longrightarrow>
               poll_iteration w (Some (JStr s)) c n =
                 ([Sleep 1000,
                   ConsoleLog (''[Poll '' @ show_nat n @ ''] Checking status for job ''
                      @ take 8 s @ ''...''),
                   Fetch GET (API_URL w @ ''/api/job/'' @ s) [],
                   ConsoleLog (''Status: '' @ template (json_member d ''status'')
                      @ '' | Progress: '' @ template (json_member d ''progress'') @ ''%'')],
                  Inr c)))"
proof (intro conjI impI allI)
  show "is_pdf r = (\<exists>ct. content_type r = Some ct \<and> js_includes ct ''application/pdf'')"
    by (rule is_pdf_content_type)
next
  assume "is_pdf r"
  then show "poll_ok w jobId c (r\<lparr>json_body := j\<rparr>) = poll_ok w jobId c r"
    by (rule poll_ok_pdf_ignores_json)
next
  fix b assume "is_pdf r" and "blob_body r = Inr b"
  with assms show "poll_iteration w (Some (JStr s)) c n =
                 ([Sleep 1000,
                   ConsoleLog (''[Poll '' @ show_nat n @ ''] Checking status for job ''
                      @ take 8 s @ ''...''),
                   Fetch GET (API_URL w @ ''/api/job/'' @ s) [],
                   ConsoleLog (check_mark @ '' PDF ready! Downloading...''),
                   Download (''report_'' @ take 8 s @ ''.pdf'') b,
                   ConsoleLog (check_mark @ '' Download complete!'')], Inr True)"
    by (rule poll_iteration_pdf)
next
  assume "\<not> is_pdf r"
  then show "poll_ok w jobId c (r\<lparr>blob_body := x\<rparr>) = poll_ok w jobId c r"
    by (rule poll_ok_json_ignores_blob)
next
  assume "\<not> is_pdf r"
  with assms(1) show "filter is_download (fst (poll_iteration w jobId c n)) = []"
    by (rule poll_iteration_json_no_download)
next
  fix d assume "\<not> is_pdf r" and "json_body r = Inr d \<and> d \<noteq> JNull"
  with assms show "poll_iteration w (Some (JStr s)) c n =
                 ([Sleep 1000,
                   ConsoleLog (''[Poll '' @ show_nat n @ ''] Checking status for job ''
                      @ take 8 s @ ''...''),
                   Fetch GET (API_URL w @ ''/api/job/'' @ s) [],
                   ConsoleLog (''Status: '' @ template (json_member d ''status'')
                      @ '' | Progress: '' @ template (json_member d ''progress'') @ ''%'')],
                  Inr c)"
    by (simp add: poll_iteration_json)
qed

theorem status_shape_by_content_type_witness:
  "poll_reply quick_server 1 = Inr pdf_reply \<and> ok pdf_reply \<and> is_pdf pdf_reply
   \<and> poll_iteration quick_server (Some (JStr ''4f2a9c1e-77'')) False 1 =
       ([Sleep 1000,
         ConsoleLog ''[Poll 1] Checking status for job 4f2a9c1e...'',
         Fetch GET ''http://localhost:5000/api/job/4f2a9c1e-77'' [],
         ConsoleLog (check_mark @ '' PDF ready! Downloading...''),
         Download ''report_4f2a9c1e.pdf'' ''%PDF-1.4'',
         ConsoleLog (check_mark @ '' Download complete!'')], Inr True)
   \<and> poll_reply slow_server 1 = Inr job_running \<and> ok job_running \<and> \<not> is_pdf job_running
   \<and> poll_iteration slow_server (Some (JStr ''4f2a9c1e-77'')) False 1 =
       ([Sleep 1000,
         ConsoleLog ''[Poll 1] Checking status for job 4f2a9c1e...'',
         Fetch GET ''http://localhost:5000/api/job/4f2a9c1e-77'' [],
         ConsoleLog ''Status: running | Progress: 50%''], Inr False)"
proof -
  have a: "poll_reply quick_server 1 = Inr pdf_reply" "ok pdf_reply" "is_pdf pdf_reply"
    "blob_body pdf_reply = Inr ''%PDF-1.4''"
    by (simp_all add: quick_server_def pdf_reply_def ok_def is_pdf_def startsWith_def)
  have b: "poll_reply slow_server 1 = Inr job_running" "ok job_running" "\<not> is_pdf job_running"
    "json_body job_running = Inr (JObj [(''status'', JStr ''running''), (''progress'', JNum ''50'')])"
    by (simp_all add: slow_server_def quick_server_def job_running_def json_reply_def ok_def
        is_pdf_def startsWith_def)
  from status_shape_by_content_type [OF a(1,2),
      where jobId = "Some (JStr ''4f2a9c1e-77'')" and c = False and s = "''4f2a9c1e-77''"
        and j = "json_body pdf_reply" and x = "blob_body pdf_reply"]
    status_shape_by_content_type [OF b(1,2),
      where jobId = "Some (JStr ''4f2a9c1e-77'')" and c = False and s = "''4f2a9c1e-77''"
        and j = "json_body job_running" and x = "blob_body job_running"]
    a b
  show ?thesis
    by (simp add: API_URL_def quick_server_def slow_server_def)
qed

section \<open>A failed job ends the polling\<close>

text \<open>
  C4, as the claim states it, fails: a non-success response is not enough. The answer of
  poll 3 has HTTP status 500 and the JSON body \<open>{status: "error", error: ...}\<close>; the turn
  logs a temporary error and returns normally, and the client makes all 600 status
  requests.
\<close>

theorem other_error_status_keeps_polling:
  "\<not> ok (job_failed 500 ''INTERNAL SERVER ERROR'')
   \<and> json_body (job_failed 500 ''INTERNAL SERVER ERROR'') =
       Inr (JObj [(''status'', JStr ''error''), (''error'', JStr ''Rate limit exceeded'')])
   \<and> poll_reply (failing_server 500 ''INTERNAL SERVER ERROR'') 3 =
       Inr (job_failed 500 ''INTERNAL SERVER ERROR'')
   \<and> poll_iteration (failing_server 500 ''INTERNAL SERVER ERROR'')
         (Some (JStr ''4f2a9c1e-77'')) False 3 =
       ([Sleep 1000,
         ConsoleLog ''[Poll 3] Checking status for job 4f2a9c1e...'',
         Fetch GET ''http://localhost:5000/api/job/4f2a9c1e-77'' [],
         ConsoleError [''Poll error: Temporary polling error'']], Inr False)
   \<and> length (filter is_status_fetch (fst (DepressionDetectorForm_onSubmit gemini_simple
         (failing_server 500 ''INTERNAL SERVER ERROR'')
         ''I feel hopeless and exhausted every day.''))) = 600"
proof -
  let ?w = "failing_server 500 ''INTERNAL SERVER ERROR''"
  let ?r = "job_failed 500 ''INTERNAL SERVER ERROR''"
  let ?d = "JObj [(''status'', JStr ''error''), (''error'', JStr ''Rate limit exceeded'')]"
  have r: "poll_reply ?w 3 = Inr ?r" "\<not> ok ?r" "status ?r \<noteq> 400" "json_body ?r = Inr ?d"
    by (simp_all add: reply_defs ok_def)
  have turn: "poll_iteration ?w (Some (JStr ''4f2a9c1e-77'')) False 3 =
       ([Sleep 1000,
         ConsoleLog ''[Poll 3] Checking status for job 4f2a9c1e...'',
         Fetch GET ''http://localhost:5000/api/job/4f2a9c1e-77'' [],
         ConsoleError [''Poll error: Temporary polling error'']], Inr False)"
    using poll_iteration_other_error [OF r, of "''4f2a9c1e-77''" False]
    by (simp add: API_URL_def reply_defs)
  have up: "upload_reply ?w = Inr job_started" "ok job_started"
    "json_body job_started = Inr (JObj [(''job_id'', JStr ''4f2a9c1e-77'')])"
    "JObj [(''job_id'', JStr ''4f2a9c1e-77'')] \<noteq> JNull"
    by (simp_all add: reply_defs ok_def)
  have all: "\<forall>i. 0 < i \<and> i \<le> maxPolls \<longrightarrow>
      snd (poll_iteration ?w (json_member (JObj [(''job_id'', JStr ''4f2a9c1e-77'')]) ''job_id'')
        False i) = Inr False"
    by (simp add: failing_server_turns)
  have "length (filter is_status_fetch
      (concat (map (\<lambda>i. fst (poll_iteration ?w (Some (JStr ''4f2a9c1e-77'')) False i))
         [1..<Suc maxPolls]))) = length [1..<Suc maxPolls]"
    by (rule length_concat_singletons) (simp add: status_fetches_iteration_string)
  then have "length (filter is_status_fetch (fst (DepressionDetectorForm_onSubmit gemini_simple
         ?w ''I feel hopeless and exhausted every day.''))) = 600"
    by (simp add: text_onSubmit_timeout [OF up all] catch_events_def maxPolls_def)
  with r turn show ?thesis by simp
qed

text \<open>
  C4, amended: when the job identifier is a string and a poll is answered by an HTTP 400
  response whose JSON body has \<open>status\<close> equal to \<open>error\<close>, the loop ends in that turn
  with the error \<open>Processing failed: <error>\<close>: if the polls before it were not
  terminal, the client has made exactly that many status requests plus this one, and its
  last three events are the log of the poll error, the log of the error and the alert
  showing the server's message.
\<close>

theorem job_error_stops_polling:
  assumes "upload_reply w = Inr u" and "ok u" and "json_body u = Inr ud"
    and "json_member ud ''job_id'' = Some (JStr s)"
    and "\<forall>i. 0 < i \<and> i \<le> k \<longrightarrow> snd (poll_iteration w (Some (JStr s)) False i) = Inr False"
    and "k < maxPolls"
    and "poll_reply w (Suc k) = Inr r" and "status r = 400" and "json_body r = Inr d"
    and "json_member d ''status'' = Some (JStr ''error'')"
  shows "poll_loop w (Some (JStr s)) False k =
      ([Sleep 1000,
        ConsoleLog (''[Poll '' @ show_nat (Suc k) @ ''] Checking status for job ''
           @ take 8 s @ ''...''),
        Fetch GET (API_URL w @ ''/api/job/'' @ s) [],
        ConsoleError [''Poll error: '' @ ''Processing failed: ''
           @ template (json_member d ''error'')]],
       Inl (''Processing failed: '' @ template (json_member d ''error'')))
    \<and> length (filter is_status_fetch (fst (DepressionDetectorForm_onSubmit p w text))) = Suc k
    \<and> (\<exists>es. fst (DepressionDetectorForm_onSubmit p w text) =
          es @ [ConsoleError [''Poll error: '' @ ''Processing failed: ''
                   @ template (json_member d ''error'')],
                ConsoleError [''Error:'', ''Processing failed: ''
                   @ template (json_member d ''error'')],
                Alert (cross_mark @ '' Error: '' @ ''Processing failed: ''
                   @ template (json_member d ''error''))])"
proof (intro conjI)
  let ?msg = "''Processing failed: '' @ template (json_member d ''error'')"
  let ?turn = "[Sleep 1000,
        ConsoleLog (''[Poll '' @ show_nat (Suc k) @ ''] Checking status for job ''
           @ take 8 s @ ''...''),
        Fetch GET (API_URL w @ ''/api/job/'' @ s) [],
        ConsoleError [''Poll error: '' @ ?msg]]"
  have it: "poll_iteration w (Some (JStr s)) False (Suc k) = (?turn, Inl ?msg)"
    using poll_iteration_job_error [OF assms(7-10)] by simp
  then have sn: "snd (poll_iteration w (Some (JStr s)) False (Suc k)) = Inl ?msg" by simp
  from poll_loop_abort [OF assms(6) sn] it
  show "poll_loop w (Some (JStr s)) False k = (?turn, Inl ?msg)" by simp
  note run = text_onSubmit_job_error [OF assms, of p "text"]
  have "length (filter is_status_fetch
      (concat (map (\<lambda>i. fst (poll_iteration w (Some (JStr s)) False i)) [1..<Suc k]))) =
      length [1..<Suc k]"
    by (rule length_concat_singletons) (simp add: status_fetches_iteration_string)
  then show "length (filter is_status_fetch (fst (DepressionDetectorForm_onSubmit p w text))) = Suc k"
    by (simp add: run status_fetches_iteration_string catch_events_def)
  show "\<exists>es. fst (DepressionDetectorForm_onSubmit p w text) =
          es @ [ConsoleError [''Poll error: '' @ ?msg], ConsoleError [''Error:'', ?msg],
                Alert (cross_mark @ '' Error: '' @ ?msg)]"
    by (rule exI [of _ "[ConsoleLog ''Submitting text...'',
      Fetch POST (API_URL w @ ''/api/upload'')
         [(''llm'', FText (prop_string (llm p))), (''text'', FText text)],
      ConsoleLog (check_mark @ '' Job started: '' @ s)]
     @ concat (map (\<lambda>i. fst (poll_iteration w (Some (JStr s)) False i)) [1..<Suc k])
     @ [Sleep 1000,
        ConsoleLog (''[Poll '' @ show_nat (Suc k) @ ''] Checking status for job ''
           @ take 8 s @ ''...''),
        Fetch GET (API_URL w @ ''/api/job/'' @ s) []]"])
      (simp add: run it catch_events_def)
qed

theorem job_error_stops_polling_witness:
  "poll_reply (failing_server 400 ''BAD REQUEST'') 3 = Inr (job_failed 400 ''BAD REQUEST'')
   \<and> poll_loop (failing_server 400 ''BAD REQUEST'') (Some (JStr ''4f2a9c1e-77'')) False 2 =
       ([Sleep 1000,
         ConsoleLog ''[Poll 3] Checking status for job 4f2a9c1e...'',
         Fetch GET ''http://localhost:5000/api/job/4f2a9c1e-77'' [],
         ConsoleError [''Poll error: Processing failed: Rate limit exceeded'']],
        Inl ''Processing failed: Rate limit exceeded'')
   \<and> length (filter is_status_fetch (fst (DepressionDetectorForm_onSubmit gemini_simple
         (failing_server 400 ''BAD REQUEST'') ''I feel hopeless and exhausted every day.''))) = 3"
proof -
  let ?w = "failing_server 400 ''BAD REQUEST''"
  have up: "upload_reply ?w = Inr job_started" "ok job_started"
    "json_body job_started = Inr (JObj [(''job_id'', JStr ''4f2a9c1e-77'')])"
    "json_member (JObj [(''job_id'', JStr ''4f2a9c1e-77'')]) ''job_id'' = Some (JStr ''4f2a9c1e-77'')"
    by (simp_all add: reply_defs ok_def)
  have before: "\<forall>i. 0 < i \<and> i \<le> 2 \<longrightarrow>
      snd (poll_iteration ?w (Some (JStr ''4f2a9c1e-77'')) False i) = Inr False"
    by (simp add: failing_server_first_turns)
  have k: "(2::nat) < maxPolls" by (simp add: maxPolls_def)
  have reply: "poll_reply ?w (Suc 2) = Inr (job_failed 400 ''BAD REQUEST'')"
    "status (job_failed 400 ''BAD REQUEST'') = 400"
    "json_body (job_failed 400 ''BAD REQUEST'') =
       Inr (JObj [(''status'', JStr ''error''), (''error'', JStr ''Rate limit exceeded'')])"
    "json_member (JObj [(''status'', JStr ''error''), (''error'', JStr ''Rate limit exceeded'')])
       ''status'' = Some (JStr ''error'')"
    by (simp_all add: reply_defs)
  from job_error_stops_polling [OF up before k reply, of gemini_simple
      "''I feel hopeless and exhausted every day.''"] reply(1)
  show ?thesis
    by (simp add: API_URL_def reply_defs numeral_3_eq_3)
qed

section \<open>The polling budget\<close>



section \<open>Failures of a poll that are swallowed\<close>

text \<open>
  C9: take turn \<open>k + 1\<close> of the loop, with the platform's own error messages (none of
  which starts with \<open>Processing failed\<close>). The turn leaves the loop with an error only
  when the reply is an HTTP 400 response whose JSON body has \<open>status\<close> equal to
  \<open>error\<close>. For every other reply (a network failure, an error response of another
  status, a body that cannot be read or parsed, a job identifier that is not a string)
  the turn returns normally, and the loop goes on from the count \<open>k + 1\<close>, so the turn is
  spent from the budget; when the poll threw, the turn ends with the log line \<open>Poll
  error: <message>\<close> and leaves \<open>isComplete\<close> false.
\<close>

theorem poll_failures_swallowed:
  assumes "platform_messages w (Suc k)" and "k < maxPolls"
  shows "(\<forall>m. snd (poll_iteration w jobId False (Suc k)) = Inl m \<longrightarrow>
            job_error_reply (poll_reply w (Suc k)))
    \<and> (\<not> job_error_reply (poll_reply w (Suc k)) \<longrightarrow>
         (\<exists>c'. snd (poll_iteration w jobId False (Suc k)) = Inr c'
            \<and> poll_loop w jobId False k =
                (fst (poll_iteration w jobId False (Suc k)) @ fst (poll_loop w jobId c' (Suc k)),
                 snd (poll_loop w jobId c' (Suc k))))
         \<and> (\<forall>m. snd (poll_try w jobId False (Suc k)) = Inl m \<longrightarrow>
               poll_iteration w jobId False (Suc k) =
                 (Sleep 1000 # fst (poll_try w jobId False (Suc k))
                    @ [ConsoleError [''Poll error: '' @ m]], Inr False)))"
proof (intro conjI allI impI)
  fix m assume "snd (poll_iteration w jobId False (Suc k)) = Inl m"
  from poll_iteration_aborts [OF this] assms(1)
  show "job_error_reply (poll_reply w (Suc k))"
    using poll_try_failed_job by blast
next
  assume nf: "\<not> job_error_reply (poll_reply w (Suc k))"
  have "\<nexists>m. snd (poll_iteration w jobId False (Suc k)) = Inl m"
  proof
    assume "\<exists>m. snd (poll_iteration w jobId False (Suc k)) = Inl m"
    then obtain m where "snd (poll_iteration w jobId False (Suc k)) = Inl m" ..
    from poll_iteration_aborts [OF this] assms(1) nf show False
      using poll_try_failed_job by blast
  qed
  then obtain c' where c': "snd (poll_iteration w jobId False (Suc k)) = Inr c'"
    by (cases "snd (poll_iteration w jobId False (Suc k))") auto
  from poll_loop_continue [OF assms(2) c'] c'
  show "\<exists>c'. snd (poll_iteration w jobId False (Suc k)) = Inr c'
            \<and> poll_loop w jobId False k =
                (fst (poll_iteration w jobId False (Suc k)) @ fst (poll_loop w jobId c' (Suc k)),
                 snd (poll_loop w jobId c' (Suc k)))"
    by blast
next
  fix m assume nf: "\<not> job_error_reply (poll_reply w (Suc k))"
    and thrown: "snd (poll_try w jobId False (Suc k)) = Inl m"
  have "\<not> startsWith m ''Processing failed''"
    using poll_try_failed_job [OF thrown _ assms(1)] nf by blast
  from poll_iteration_swallowed [OF thrown this]
  show "poll_iteration w jobId False (Suc k) =
                 (Sleep 1000 # fst (poll_try w jobId False (Suc k))
                    @ [ConsoleError [''Poll error: '' @ m]], Inr False)" .
qed

theorem poll_failures_swallowed_witness:
  "platform_messages flaky_network (Suc 0) \<and> (0::nat) < maxPolls
   \<and> \<not> job_error_reply (poll_reply flaky_network (Suc 0))
   \<and> snd (poll_try flaky_network (Some (JStr ''4f2a9c1e-77'')) False (Suc 0)) = Inl ''Failed to fetch''
   \<and> poll_iteration flaky_network (Some (JStr ''4f2a9c1e-77'')) False (Suc 0) =
       ([Sleep 1000,
         ConsoleLog ''[Poll 1] Checking status for job 4f2a9c1e...'',
         Fetch GET ''http://localhost:5000/api/job/4f2a9c1e-77'' [],
         ConsoleError [''Poll error: Failed to fetch'']], Inr False)"
proof -
  have pm: "platform_messages flaky_network (Suc 0)"
    by (simp add: platform_messages_def platform_message_def startsWith_def reply_defs)
  have k: "(0::nat) < maxPolls" by (simp add: maxPolls_def)
  have nf: "\<not> job_error_reply (poll_reply flaky_network (Suc 0))"
    by (simp add: job_error_reply_def reply_defs)
  have thrown: "snd (poll_try flaky_network (Some (JStr ''4f2a9c1e-77'')) False (Suc 0)) =
      Inl ''Failed to fetch''"
    by (simp add: snd_poll_try_string reply_defs)
  from poll_failures_swallowed [OF pm k, of "Some (JStr ''4f2a9c1e-77'')"] nf thrown pm k
  show ?thesis
    by (simp add: fst_poll_try_string API_URL_def reply_defs)
qed

section \<open>Where the report comes from\<close>

text \<open>
  C1, as the claim states it, fails for the file form: whatever the upload endpoint
  answers, the form takes the body of that answer as the report, downloads it and
  reports success, without a status request. With the server that answers with a job
  identifier the downloaded bytes are the JSON text of that answer; with a server that
  answers with the report they are the report.
\<close>

theorem file_report_comes_from_the_upload:
  "upload_reply quick_server = Inr job_started
   \<and> json_body job_started = Inr (JObj [(''job_id'', JStr ''4f2a9c1e-77'')])
   \<and> DataUpload_submit DataUpload_init quick_server
        (Some (File ''journal.txt'' ''I feel hopeless and exhausted every day.'')) =
       ([ConsoleLog ''Processing journal.txt...'',
         Fetch POST ''http://localhost:5000/api/upload''
           [(''file'', FFile (File ''journal.txt'' ''I feel hopeless and exhausted every day.''))],
         Download ''report_1700000000000.pdf''
           (''{'' @ dq @ ''job_id'' @ dq @ '': '' @ dq @ ''4f2a9c1e-77'' @ dq @ ''}''),
         FormReset,
         Alert ''Report generated and downloaded successfully!'',
         OnSuccess], Inr ())
   \<and> upload_reply sync_server = Inr pdf_reply
   \<and> DataUpload_submit DataUpload_init sync_server
        (Some (File ''journal.txt'' ''I feel hopeless and exhausted every day.'')) =
       ([ConsoleLog ''Processing journal.txt...'',
         Fetch POST ''http://localhost:5000/api/upload''
           [(''file'', FFile (File ''journal.txt'' ''I feel hopeless and exhausted every day.''))],
         Download ''report_1700000000000.pdf'' ''%PDF-1.4'',
         FormReset,
         Alert ''Report generated and downloaded successfully!'',
         OnSuccess], Inr ())"
  by (simp add: DataUpload_submit_def DataUpload_props_def DataUpload_init_def run_defs reply_defs)

text \<open>
  C1, amended to the text form: a report is downloaded only in a poll. Every download of
  a run is of the bytes of a success response with content type \<open>application/pdf\<close> to
  one of the polls 1 to 600, made for the job whose identifier (a string) the upload
  response gave in the member \<open>job_id\<close> of its JSON body; every status request of the
  run is for that job; and the bytes of the upload response are not read: they play no
  part in the run.
\<close>

theorem text_report_comes_from_a_poll:
  "(Download name bytes \<in> set (fst (DepressionDetectorForm_onSubmit p w text)) \<longrightarrow>
      (\<exists>u d s k r. upload_reply w = Inr u \<and> ok u \<and> json_body u = Inr d
         \<and> json_member d ''job_id'' = Some (JStr s)
         \<and> 0 < k \<and> k \<le> maxPolls \<and> poll_reply w k = Inr r \<and> ok r \<and> is_pdf r
         \<and> blob_body r = Inr bytes \<and> name = ''report_'' @ take 8 s @ ''.pdf''))
   \<and> (\<forall>e \<in> set (fst (DepressionDetectorForm_onSubmit p w text)). is_status_fetch e \<longrightarrow>
         (\<exists>u d s. upload_reply w = Inr u \<and> ok u \<and> json_body u = Inr d
            \<and> json_member d ''job_id'' = Some (JStr s)
            \<and> e = Fetch GET (API_URL w @ ''/api/job/'' @ s) []))
   \<and> DepressionDetectorForm_onSubmit p (w\<lparr>upload_reply := Inr (u'\<lparr>blob_body := x\<rparr>)\<rparr>) text =
       DepressionDetectorForm_onSubmit p (w\<lparr>upload_reply := Inr u'\<rparr>) text"
proof (intro conjI impI ballI)
  assume "Download name bytes \<in> set (fst (DepressionDetectorForm_onSubmit p w text))"
  then show "\<exists>u d s k r. upload_reply w = Inr u \<and> ok u \<and> json_body u = Inr d
         \<and> json_member d ''job_id'' = Some (JStr s)
         \<and> 0 < k \<and> k \<le> maxPolls \<and> poll_reply w k = Inr r \<and> ok r \<and> is_pdf r
         \<and> blob_body r = Inr bytes \<and> name = ''report_'' @ take 8 s @ ''.pdf''"
    by (rule text_download_origin)
next
  fix e
  assume "e \<in> set (fst (DepressionDetectorForm_onSubmit p w text))" and "is_status_fetch e"
  then show "\<exists>u d s. upload_reply w = Inr u \<and> ok u \<and> json_body u = Inr d
            \<and> json_member d ''job_id'' = Some (JStr s)
            \<and> e = Fetch GET (API_URL w @ ''/api/job/'' @ s) []"
    by (rule text_status_fetch_origin)
next
  show "DepressionDetectorForm_onSubmit p (w\<lparr>upload_reply := Inr (u'\<lparr>blob_body := x\<rparr>)\<rparr>) text =
       DepressionDetectorForm_onSubmit p (w\<lparr>upload_reply := Inr u'\<rparr>) text"
    by (rule text_onSubmit_upload_blob)
qed

theorem text_report_comes_from_a_poll_witness:
  "Download ''report_4f2a9c1e.pdf'' ''%PDF-1.4''
     \<in> set (fst (DepressionDetectorForm_onSubmit gemini_simple quick_server
          ''I feel hopeless and exhausted every day.''))
   \<and> (\<exists>u d s k r. upload_reply quick_server = Inr u \<and> ok u \<and> json_body u = Inr d
         \<and> json_member d ''job_id'' = Some (JStr s)
         \<and> 0 < k \<and> k \<le> maxPolls \<and> poll_reply quick_server k = Inr r \<and> ok r \<and> is_pdf r
         \<and> blob_body r = Inr ''%PDF-1.4''
         \<and> ''report_4f2a9c1e.pdf'' = ''report_'' @ take 8 s @ ''.pdf'')"
proof -
  have "Download ''report_4f2a9c1e.pdf'' ''%PDF-1.4''
     \<in> set (fst (DepressionDetectorForm_onSubmit gemini_simple quick_server
          ''I feel hopeless and exhausted every day.''))"
    by (simp add: run_defs reply_defs poll_loop.simps)
  with text_report_comes_from_a_poll [of "''report_4f2a9c1e.pdf''" "''%PDF-1.4''" gemini_simple
      quick_server "''I feel hopeless and exhausted every day.''"]
  show ?thesis by blast
qed

end
